theory Spec2Isabelle
  imports Complex_Main "HOL-Library.Monad_Syntax"
begin

section \<open>Points, clouds, vectors and poses\<close>

text \<open>
  The C++ works on \<open>float\<close> and \<open>double\<close>; the embedding idealises both as \<open>real\<close>.
  Consequently every value is finite: \<open>pcl_isfinite\<close> is constantly true and
  \<open>removeNaNFromPointCloud\<close> keeps every point.  Diagnostics written with \<open>printf\<close> are
  not part of the state and are left out.  An element read outside a cloud's range
  (undefined behaviour in C++) is the result \<open>None\<close>.
\<close>

record PointXYZI =
  px :: real
  py :: real
  pz :: real
  intensity :: real

type_synonym PointCloud = "PointXYZI list"

definition PointXYZI_default :: PointXYZI where
  \<comment> \<open>the default constructor of \<open>pcl::PointXYZI\<close>: the origin, intensity 0\<close>
  "PointXYZI_default = \<lparr>px = 0, py = 0, pz = 0, intensity = 0\<rparr>"

record Vector3 =
  vx :: real
  vy :: real
  vz :: real

definition Vector3_zero :: Vector3 where
  "Vector3_zero = \<lparr>vx = 0, vy = 0, vz = 0\<rparr>"

definition vsub :: "Vector3 \<Rightarrow> Vector3 \<Rightarrow> Vector3" where
  "vsub a b = \<lparr>vx = vx a - vx b, vy = vy a - vy b, vz = vz a - vz b\<rparr>"

definition vscale :: "Vector3 \<Rightarrow> real \<Rightarrow> Vector3" where
  "vscale a k = \<lparr>vx = vx a * k, vy = vy a * k, vz = vz a * k\<rparr>"

text \<open>
  An \<open>Angle\<close> (Angle.h is not among the sources) is modelled by its value in radians;
  its sine and cosine are those of that value.
\<close>

type_synonym Angle = real

record Twist =
  rot_x :: Angle
  rot_y :: Angle
  rot_z :: Angle
  pos :: Vector3

definition Twist_default :: Twist where
  \<comment> \<open>Modelled from the spec: Twist.h is not among the sources; a default-constructed
      pose has zero angles and zero translation (the cold-start scenario of the spec).\<close>
  "Twist_default = \<lparr>rot_x = 0, rot_y = 0, rot_z = 0, pos = Vector3_zero\<rparr>"

definition int_of_float :: "real \<Rightarrow> int" where
  \<comment> \<open>the C++ conversion \<open>int(f)\<close>: truncation towards zero\<close>
  "int_of_float f = (if 0 \<le> f then \<lfloor>f\<rfloor> else \<lceil>f\<rceil>)"

subsection \<open>math_utils.h\<close>

definition rotX :: "Angle \<Rightarrow> real \<times> real \<times> real \<Rightarrow> real \<times> real \<times> real" where
  \<comment> \<open>Modelled from the spec: math_utils.h is not among the sources; rotation about
      the x axis by the given angle.\<close>
  "rotX a = (\<lambda>(x, y, z). (x, cos a * y - sin a * z, sin a * y + cos a * z))"

definition rotY :: "Angle \<Rightarrow> real \<times> real \<times> real \<Rightarrow> real \<times> real \<times> real" where
  \<comment> \<open>Modelled from the spec: rotation about the y axis.\<close>
  "rotY a = (\<lambda>(x, y, z). (cos a * x + sin a * z, y, cos a * z - sin a * x))"

definition rotZ :: "Angle \<Rightarrow> real \<times> real \<times> real \<Rightarrow> real \<times> real \<times> real" where
  \<comment> \<open>Modelled from the spec: rotation about the z axis.\<close>
  "rotZ a = (\<lambda>(x, y, z). (cos a * x - sin a * y, sin a * x + cos a * y, z))"

definition rotateZXY :: "real \<times> real \<times> real \<Rightarrow> Angle \<Rightarrow> Angle \<Rightarrow> Angle \<Rightarrow> real \<times> real \<times> real" where
  \<comment> \<open>Modelled from the spec: "applies intrinsic rotations in the order Z, then X, then Y".\<close>
  "rotateZXY v angZ angX angY = rotY angY (rotX angX (rotZ angZ v))"

definition rotateYXZ :: "real \<times> real \<times> real \<Rightarrow> Angle \<Rightarrow> Angle \<Rightarrow> Angle \<Rightarrow> real \<times> real \<times> real" where
  \<comment> \<open>Modelled from the spec: the rotations in the order Y, then X, then Z.\<close>
  "rotateYXZ v angY angX angZ = rotZ angZ (rotX angX (rotY angY v))"

definition rotateZXY_point :: "PointXYZI \<Rightarrow> Angle \<Rightarrow> Angle \<Rightarrow> Angle \<Rightarrow> PointXYZI" where
  "rotateZXY_point p angZ angX angY =
     (case rotateZXY (px p, py p, pz p) angZ angX angY of
        (x, y, z) \<Rightarrow> p\<lparr>px := x, py := y, pz := z\<rparr>)"

definition rotateYXZ_point :: "PointXYZI \<Rightarrow> Angle \<Rightarrow> Angle \<Rightarrow> Angle \<Rightarrow> PointXYZI" where
  "rotateYXZ_point p angY angX angZ =
     (case rotateYXZ (px p, py p, pz p) angY angX angZ of
        (x, y, z) \<Rightarrow> p\<lparr>px := x, py := y, pz := z\<rparr>)"

definition rotateZXY_vec :: "Vector3 \<Rightarrow> Angle \<Rightarrow> Angle \<Rightarrow> Angle \<Rightarrow> Vector3" where
  "rotateZXY_vec v angZ angX angY =
     (case rotateZXY (vx v, vy v, vz v) angZ angX angY of
        (x, y, z) \<Rightarrow> \<lparr>vx = x, vy = y, vz = z\<rparr>)"

definition calcSquaredDiff :: "PointXYZI \<Rightarrow> PointXYZI \<Rightarrow> real" where
  \<comment> \<open>Modelled from the spec: the squared distance of two points (math_utils.h).\<close>
  "calcSquaredDiff a b =
     (px a - px b) * (px a - px b) + (py a - py b) * (py a - py b) + (pz a - pz b) * (pz a - pz b)"

definition calcPointDistance :: "PointXYZI \<Rightarrow> real" where
  \<comment> \<open>Modelled from the spec: the Euclidean norm of a point (math_utils.h).\<close>
  "calcPointDistance p = sqrt (px p * px p + py p * py p + pz p * pz p)"

definition rad2deg :: "real \<Rightarrow> real" where
  \<comment> \<open>Modelled from the spec: radians to degrees (math_utils.h).\<close>
  "rad2deg r = r * 180 / pi"

section \<open>The odometry object\<close>

record LaserOdometryParams =
  scanPeriod :: real
  maxIterations :: nat
  deltaRAbort :: real
  deltaTAbort :: real
  ioRatio :: nat

text \<open>
  The members of \<open>LaserOdometry\<close>, under their names in the source without the leading
  underscore.  \<open>Time\<close> is \<open>int\<close> (common.h); differences of time stamps are taken in
  unbounded integers (a 32-bit difference wraps to 0 only for equal stamps, so the gate
  is the same).  The frame count is a natural number.  A neighbour index is modelled by
  the cloud it was last built over (\<open>setInputCloud\<close>); \<open>None\<close> before the first build.
\<close>

type_synonym Time = int

record LaserOdometry =
  params :: LaserOdometryParams
  systemInited :: bool
  frameCount :: nat
  timeCornerPointsSharp :: Time
  timeCornerPointsLessSharp :: Time
  timeSurfPointsFlat :: Time
  timeSurfPointsLessFlat :: Time
  timeLaserCloudFullRes :: Time
  timeImuTrans :: Time
  newCornerPointsSharp :: bool
  newCornerPointsLessSharp :: bool
  newSurfPointsFlat :: bool
  newSurfPointsLessFlat :: bool
  newLaserCloudFullRes :: bool
  newImuTrans :: bool
  cornerPointsSharp :: PointCloud
  cornerPointsLessSharp :: PointCloud
  surfPointsFlat :: PointCloud
  surfPointsLessFlat :: PointCloud
  laserCloudFullRes :: PointCloud
  lastCornerCloud :: PointCloud
  lastSurfaceCloud :: PointCloud
  laserCloudOri :: PointCloud
  coeffSel :: PointCloud
  lastCornerKDTree :: "PointCloud option"
  lastSurfaceKDTree :: "PointCloud option"
  pointSearchCornerInd1 :: "int list"
  pointSearchCornerInd2 :: "int list"
  pointSearchSurfInd1 :: "int list"
  pointSearchSurfInd2 :: "int list"
  pointSearchSurfInd3 :: "int list"
  transform :: Twist
  transformSum :: Twist
  imuRollStart :: Angle
  imuPitchStart :: Angle
  imuYawStart :: Angle
  imuRollEnd :: Angle
  imuPitchEnd :: Angle
  imuYawEnd :: Angle
  imuShiftFromStart :: Vector3
  imuVeloFromStart :: Vector3


section \<open>External library routines\<close>

text \<open>
  The routines of nanoflann, Eigen, PCL and libm that the odometry calls are parameters of
  the model: \<open>nearestKSearch\<close> yields \<open>pointSearchInd[0]\<close> and \<open>pointSearchSqDis[0]\<close> after
  a 1-nearest-neighbour query on an index; \<open>qr_solve\<close> is
  \<open>colPivHouseholderQr().solve\<close>; \<open>eigenvalues\<close> and \<open>eigenvectors\<close> are those of
  \<open>SelfAdjointEigenSolver\<close>; \<open>mat_inverse\<close> is \<open>inverse()\<close>; \<open>getEulerAngles\<close> yields
  (roll, pitch, yaw).  Matrices are lists of rows.
\<close>

type_synonym Matrix = "real list list"

record 'aff External =
  nearestKSearch :: "PointCloud option \<Rightarrow> PointXYZI \<Rightarrow> int \<times> real"
  qr_solve :: "Matrix \<Rightarrow> real list \<Rightarrow> real list"
  eigenvalues :: "Matrix \<Rightarrow> real list"
  eigenvectors :: "Matrix \<Rightarrow> Matrix"
  mat_inverse :: "Matrix \<Rightarrow> Matrix"
  getTransformation :: "real \<Rightarrow> real \<Rightarrow> real \<Rightarrow> real \<Rightarrow> real \<Rightarrow> real \<Rightarrow> 'aff"
  affine_mul :: "'aff \<Rightarrow> 'aff \<Rightarrow> 'aff"
  getEulerAngles :: "'aff \<Rightarrow> real \<times> real \<times> real"
  atan2 :: "real \<Rightarrow> real \<Rightarrow> real"

definition pcl_isfinite :: "real \<Rightarrow> bool" where
  "pcl_isfinite r = True"

definition removeNaNFromPointCloud :: "PointCloud \<Rightarrow> PointCloud" where
  "removeNaNFromPointCloud cloud =
     filter (\<lambda>p. pcl_isfinite (px p) \<and> pcl_isfinite (py p) \<and> pcl_isfinite (pz p)) cloud"

definition cloud_at :: "PointCloud \<Rightarrow> int \<Rightarrow> PointXYZI option" where
  \<comment> \<open>\<open>cloud->points[i]\<close>; a read outside the cloud is \<open>None\<close>\<close>
  "cloud_at cloud i = (if 0 \<le> i \<and> nat i < length cloud then Some (cloud ! nat i) else None)"

section \<open>Re-projection of points\<close>

definition transformToStart :: "LaserOdometry \<Rightarrow> PointXYZI \<Rightarrow> PointXYZI" where
  "transformToStart st p_in =
     (let s = 10 * (intensity p_in - real_of_int (int_of_float (intensity p_in)));
          po = \<lparr>px = px p_in - s * vx (pos (transform st)),
                py = py p_in - s * vy (pos (transform st)),
                pz = pz p_in - s * vz (pos (transform st)),
                intensity = intensity p_in\<rparr>;
          rx = - s * rot_x (transform st);
          ry = - s * rot_y (transform st);
          rz = - s * rot_z (transform st)
      in rotateZXY_point po rz rx ry)"

definition transformToEnd_point :: "LaserOdometry \<Rightarrow> PointXYZI \<Rightarrow> PointXYZI" where
  \<comment> \<open>the body of the loop of \<open>transformToEnd\<close>\<close>
  "transformToEnd_point st point0 =
     (let s = 10 * (intensity point0 - real_of_int (int_of_float (intensity point0)));
          point1 = \<lparr>px = px point0 - s * vx (pos (transform st)),
                    py = py point0 - s * vy (pos (transform st)),
                    pz = pz point0 - s * vz (pos (transform st)),
                    intensity = real_of_int (int_of_float (intensity point0))\<rparr>;
          rx = - s * rot_x (transform st);
          ry = - s * rot_y (transform st);
          rz = - s * rot_z (transform st);
          point2 = rotateZXY_point point1 rz rx ry;
          point3 = rotateYXZ_point point2 (rot_y (transform st)) (rot_x (transform st))
                     (rot_z (transform st));
          point4 = point3\<lparr>px := px point3 + (vx (pos (transform st)) - vx (imuShiftFromStart st)),
                          py := py point3 + (vy (pos (transform st)) - vy (imuShiftFromStart st)),
                          pz := pz point3 + (vz (pos (transform st)) - vz (imuShiftFromStart st))\<rparr>;
          point5 = rotateZXY_point point4 (imuRollStart st) (imuPitchStart st) (imuYawStart st)
      in rotateYXZ_point point5 (- imuYawEnd st) (- imuPitchEnd st) (- imuRollEnd st))"

definition transformToEnd :: "LaserOdometry \<Rightarrow> PointCloud \<Rightarrow> PointCloud" where
  \<comment> \<open>the cloud after the in-place loop (the returned size is that of the cloud)\<close>
  "transformToEnd st cloud = map (transformToEnd_point st) cloud"

section \<open>Composition of rotations\<close>

definition pluginIMURotation ::
  "'aff External \<Rightarrow> Angle \<Rightarrow> Angle \<Rightarrow> Angle \<Rightarrow> Angle \<Rightarrow> Angle \<Rightarrow> Angle \<Rightarrow> Angle \<Rightarrow> Angle \<Rightarrow> Angle
     \<Rightarrow> Angle \<times> Angle \<times> Angle" where
  "pluginIMURotation ext bcx bcy bcz blx bly blz alx aly alz =
     (let sbcx = sin bcx; cbcx = cos bcx; sbcy = sin bcy; cbcy = cos bcy;
          sbcz = sin bcz; cbcz = cos bcz;
          sblx = sin blx; cblx = cos blx; sbly = sin bly; cbly = cos bly;
          sblz = sin blz; cblz = cos blz;
          salx = sin alx; calx = cos alx; saly = sin aly; caly = cos aly;
          salz = sin alz; calz = cos alz;
          srx = - sbcx * (salx * sblx + calx * caly * cblx * cbly + calx * cblx * saly * sbly)
                - cbcx * cbcz * (calx * saly * (cbly * sblz - cblz * sblx * sbly)
                                 - calx * caly * (sbly * sblz + cbly * cblz * sblx) + cblx * cblz * salx)
                - cbcx * sbcz * (calx * caly * (cblz * sbly - cbly * sblx * sblz)
                                 - calx * saly * (cbly * cblz + sblx * sbly * sblz) + cblx * salx * sblz);
          acx = - arcsin srx;
          srycrx = (cbcy * sbcz - cbcz * sbcx * sbcy) * (calx * saly * (cbly * sblz - cblz * sblx * sbly)
                                                        - calx * caly * (sbly * sblz + cbly * cblz * sblx) + cblx * cblz * salx)
                   - (cbcy * cbcz + sbcx * sbcy * sbcz) * (calx * caly * (cblz * sbly - cbly * sblx * sblz)
                                                          - calx * saly * (cbly * cblz + sblx * sbly * sblz) + cblx * salx * sblz)
                   + cbcx * sbcy * (salx * sblx + calx * caly * cblx * cbly + calx * cblx * saly * sbly);
          crycrx = (cbcz * sbcy - cbcy * sbcx * sbcz) * (calx * caly * (cblz * sbly - cbly * sblx * sblz)
                                                        - calx * saly * (cbly * cblz + sblx * sbly * sblz) + cblx * salx * sblz)
                   - (sbcy * sbcz + cbcy * cbcz * sbcx) * (calx * saly * (cbly * sblz - cblz * sblx * sbly)
                                                          - calx * caly * (sbly * sblz + cbly * cblz * sblx) + cblx * cblz * salx)
                   + cbcx * cbcy * (salx * sblx + calx * caly * cblx * cbly + calx * cblx * saly * sbly);
          acy = atan2 ext (srycrx / cos acx) (crycrx / cos acx);
          srzcrx = sbcx * (cblx * cbly * (calz * saly - caly * salx * salz)
                           - cblx * sbly * (caly * calz + salx * saly * salz) + calx * salz * sblx)
                   - cbcx * cbcz * ((caly * calz + salx * saly * salz) * (cbly * sblz - cblz * sblx * sbly)
                                    + (calz * saly - caly * salx * salz) * (sbly * sblz + cbly * cblz * sblx)
                                    - calx * cblx * cblz * salz)
                   + cbcx * sbcz * ((caly * calz + salx * saly * salz) * (cbly * cblz + sblx * sbly * sblz)
                                    + (calz * saly - caly * salx * salz) * (cblz * sbly - cbly * sblx * sblz)
                                    + calx * cblx * salz * sblz);
          crzcrx = sbcx * (cblx * sbly * (caly * salz - calz * salx * saly)
                           - cblx * cbly * (saly * salz + caly * calz * salx) + calx * calz * sblx)
                   + cbcx * cbcz * ((saly * salz + caly * calz * salx) * (sbly * sblz + cbly * cblz * sblx)
                                    + (caly * salz - calz * salx * saly) * (cbly * sblz - cblz * sblx * sbly)
                                    + calx * calz * cblx * cblz)
                   - cbcx * sbcz * ((saly * salz + caly * calz * salx) * (cblz * sbly - cbly * sblx * sblz)
                                    + (caly * salz - calz * salx * saly) * (cbly * cblz + sblx * sbly * sblz)
                                    - calx * calz * cblx * sblz);
          acz = atan2 ext (srzcrx / cos acx) (crzcrx / cos acx)
      in (acx, acy, acz))"

definition accumulateRotation ::
  "'aff External \<Rightarrow> Angle \<Rightarrow> Angle \<Rightarrow> Angle \<Rightarrow> Angle \<Rightarrow> Angle \<Rightarrow> Angle \<Rightarrow> Angle \<times> Angle \<times> Angle" where
  "accumulateRotation ext cx cy cz lx ly lz =
     (let current = getTransformation ext 0 0 0 cy cx cz;
          last = getTransformation ext 0 0 0 ly lx lz
      in case getEulerAngles ext (affine_mul ext last current) of
           (oy_f, ox_f, oz_f) \<Rightarrow> (ox_f, oy_f, oz_f))"

section \<open>Input gating\<close>

definition reset :: "LaserOdometry \<Rightarrow> LaserOdometry" where
  "reset st = st\<lparr>newCornerPointsSharp := False,
                 newCornerPointsLessSharp := False,
                 newSurfPointsFlat := False,
                 newSurfPointsLessFlat := False,
                 newLaserCloudFullRes := False,
                 newImuTrans := False\<rparr>"

definition hasNewData :: "LaserOdometry \<Rightarrow> bool" where
  "hasNewData st \<longleftrightarrow>
     newCornerPointsSharp st \<and> newCornerPointsLessSharp st \<and> newSurfPointsFlat st \<and>
     newSurfPointsLessFlat st \<and> newLaserCloudFullRes st \<and> newImuTrans st \<and>
     \<bar>real_of_int (timeCornerPointsSharp st - timeSurfPointsLessFlat st)\<bar> < 0.005 \<and>
     \<bar>real_of_int (timeCornerPointsLessSharp st - timeSurfPointsLessFlat st)\<bar> < 0.005 \<and>
     \<bar>real_of_int (timeSurfPointsFlat st - timeSurfPointsLessFlat st)\<bar> < 0.005 \<and>
     \<bar>real_of_int (timeLaserCloudFullRes st - timeSurfPointsLessFlat st)\<bar> < 0.005 \<and>
     \<bar>real_of_int (timeImuTrans st - timeSurfPointsLessFlat st)\<bar> < 0.005"


section \<open>Correspondence search\<close>

text \<open>
  The second-pass scans of \<open>process\<close>.  Each takes the scanned cloud, the query position
  \<open>pointSel\<close>, the ring \<open>closestPointScan\<close> of the closest neighbour, the loop bound as the
  source writes it, the loop variable \<open>j\<close> and the running minima; each element read goes
  through \<open>cloud_at\<close>.  The conversion \<open>size_t(intensity)\<close> of line 359 is read as
  \<open>int(intensity)\<close>: ring indices are not negative.
\<close>

function corner_forward ::
  "PointCloud \<Rightarrow> PointXYZI \<Rightarrow> int \<Rightarrow> nat \<Rightarrow> nat \<Rightarrow> real \<times> int \<Rightarrow> (real \<times> int) option" where
  "corner_forward cloud pointSel closestPointScan cornerPointsSharpNum j (minPointSqDis2, minPointInd2) =
     (if j < cornerPointsSharpNum then
        (case cloud_at cloud (int j) of
           None \<Rightarrow> None
         | Some pj \<Rightarrow>
             if real_of_int (int_of_float (intensity pj)) > real_of_int closestPointScan + 2.5
             then Some (minPointSqDis2, minPointInd2)
             else corner_forward cloud pointSel closestPointScan cornerPointsSharpNum (Suc j)
                    (if int_of_float (intensity pj) > closestPointScan
                        \<and> calcSquaredDiff pj pointSel < minPointSqDis2
                     then (calcSquaredDiff pj pointSel, int j)
                     else (minPointSqDis2, minPointInd2)))
      else Some (minPointSqDis2, minPointInd2))"
  by pat_completeness auto
termination
  by (relation "measure (\<lambda>(cloud, pointSel, scan, n, j, acc). n - j)") auto

function corner_backward ::
  "PointCloud \<Rightarrow> PointXYZI \<Rightarrow> int \<Rightarrow> int \<Rightarrow> real \<times> int \<Rightarrow> (real \<times> int) option" where
  "corner_backward cloud pointSel closestPointScan j (minPointSqDis2, minPointInd2) =
     (if j \<ge> 0 then
        (case cloud_at cloud j of
           None \<Rightarrow> None
         | Some pj \<Rightarrow>
             if real_of_int (int_of_float (intensity pj)) < real_of_int closestPointScan - 2.5
             then Some (minPointSqDis2, minPointInd2)
             else corner_backward cloud pointSel closestPointScan (j - 1)
                    (if int_of_float (intensity pj) < closestPointScan
                        \<and> calcSquaredDiff pj pointSel < minPointSqDis2
                     then (calcSquaredDiff pj pointSel, j)
                     else (minPointSqDis2, minPointInd2)))
      else Some (minPointSqDis2, minPointInd2))"
  by pat_completeness auto
termination
  by (relation "measure (\<lambda>(cloud, pointSel, scan, j, acc). nat (j + 1))") auto

definition corner_search ::
  "'aff External \<Rightarrow> LaserOdometry \<Rightarrow> nat \<Rightarrow> PointXYZI \<Rightarrow> (int \<times> int) option" where
  \<comment> \<open>lines 350 to 386: the closest neighbour and the second one, \<open>- 1\<close> for none\<close>
  "corner_search ext st cornerPointsSharpNum pointSel =
     (case nearestKSearch ext (lastCornerKDTree st) pointSel of
        (pointSearchInd, pointSearchSqDis) \<Rightarrow>
          if pointSearchSqDis < 25 then
            do {
              closest \<leftarrow> cloud_at (lastCornerCloud st) pointSearchInd;
              fwd \<leftarrow> corner_forward (lastCornerCloud st) pointSel (int_of_float (intensity closest))
                       cornerPointsSharpNum (nat (pointSearchInd + 1)) (25, - 1);
              bwd \<leftarrow> corner_backward (lastCornerCloud st) pointSel (int_of_float (intensity closest))
                       (pointSearchInd - 1) fwd;
              Some (pointSearchInd, snd bwd)
            }
          else Some (- 1, - 1))"

function surf_forward ::
  "PointCloud \<Rightarrow> PointXYZI \<Rightarrow> int \<Rightarrow> nat \<Rightarrow> nat \<Rightarrow> (real \<times> int) \<times> (real \<times> int)
     \<Rightarrow> ((real \<times> int) \<times> (real \<times> int)) option" where
  "surf_forward cloud pointSel closestPointScan surfPointsFlatNum j (min2, min3) =
     (if j < surfPointsFlatNum then
        (case cloud_at cloud (int j) of
           None \<Rightarrow> None
         | Some pj \<Rightarrow>
             if real_of_int (int_of_float (intensity pj)) > real_of_int closestPointScan + 2.5
             then Some (min2, min3)
             else surf_forward cloud pointSel closestPointScan surfPointsFlatNum (Suc j)
                    (if int_of_float (intensity pj) \<le> closestPointScan
                     then (if calcSquaredDiff pj pointSel < fst min2
                           then ((calcSquaredDiff pj pointSel, int j), min3) else (min2, min3))
                     else (if calcSquaredDiff pj pointSel < fst min3
                           then (min2, (calcSquaredDiff pj pointSel, int j)) else (min2, min3))))
      else Some (min2, min3))"
  by pat_completeness auto
termination
  by (relation "measure (\<lambda>(cloud, pointSel, scan, n, j, acc). n - j)") auto

function surf_backward ::
  "PointCloud \<Rightarrow> PointXYZI \<Rightarrow> int \<Rightarrow> int \<Rightarrow> (real \<times> int) \<times> (real \<times> int)
     \<Rightarrow> ((real \<times> int) \<times> (real \<times> int)) option" where
  "surf_backward cloud pointSel closestPointScan j (min2, min3) =
     (if j \<ge> 0 then
        (case cloud_at cloud j of
           None \<Rightarrow> None
         | Some pj \<Rightarrow>
             if real_of_int (int_of_float (intensity pj)) < real_of_int closestPointScan - 2.5
             then Some (min2, min3)
             else surf_backward cloud pointSel closestPointScan (j - 1)
                    (if int_of_float (intensity pj) \<ge> closestPointScan
                     then (if calcSquaredDiff pj pointSel < fst min2
                           then ((calcSquaredDiff pj pointSel, j), min3) else (min2, min3))
                     else (if calcSquaredDiff pj pointSel < fst min3
                           then (min2, (calcSquaredDiff pj pointSel, j)) else (min2, min3))))
      else Some (min2, min3))"
  by pat_completeness auto
termination
  by (relation "measure (\<lambda>(cloud, pointSel, scan, j, acc). nat (j + 1))") auto

definition surf_search ::
  "'aff External \<Rightarrow> LaserOdometry \<Rightarrow> nat \<Rightarrow> PointXYZI \<Rightarrow> (int \<times> int \<times> int) option" where
  \<comment> \<open>lines 453 to 498\<close>
  "surf_search ext st surfPointsFlatNum pointSel =
     (case nearestKSearch ext (lastSurfaceKDTree st) pointSel of
        (pointSearchInd, pointSearchSqDis) \<Rightarrow>
          if pointSearchSqDis < 25 then
            do {
              closest \<leftarrow> cloud_at (lastSurfaceCloud st) pointSearchInd;
              fwd \<leftarrow> surf_forward (lastSurfaceCloud st) pointSel (int_of_float (intensity closest))
                       surfPointsFlatNum (nat (pointSearchInd + 1)) ((25, - 1), (25, - 1));
              bwd \<leftarrow> surf_backward (lastSurfaceCloud st) pointSel (int_of_float (intensity closest))
                       (pointSearchInd - 1) fwd;
              Some (pointSearchInd, snd (fst bwd), snd (snd bwd))
            }
          else Some (- 1, - 1, - 1))"

section \<open>Residuals\<close>

definition corner_residual ::
  "nat \<Rightarrow> PointXYZI \<Rightarrow> PointXYZI \<Rightarrow> PointXYZI \<Rightarrow> PointXYZI \<times> real \<times> real" where
  \<comment> \<open>lines 396 to 440: the coefficient, the weight \<open>s\<close> and the distance \<open>ld2\<close>
      (\<open>pointProj\<close> is written and never read)\<close>
  "corner_residual iterCount pointSel tripod1 tripod2 =
     (let x0 = px pointSel; y0 = py pointSel; z0 = pz pointSel;
          x1 = px tripod1; y1 = py tripod1; z1 = pz tripod1;
          x2 = px tripod2; y2 = py tripod2; z2 = pz tripod2;
          a012 = sqrt (((x0 - x1) * (y0 - y2) - (x0 - x2) * (y0 - y1))
                       * ((x0 - x1) * (y0 - y2) - (x0 - x2) * (y0 - y1))
                       + ((x0 - x1) * (z0 - z2) - (x0 - x2) * (z0 - z1))
                         * ((x0 - x1) * (z0 - z2) - (x0 - x2) * (z0 - z1))
                       + ((y0 - y1) * (z0 - z2) - (y0 - y2) * (z0 - z1))
                         * ((y0 - y1) * (z0 - z2) - (y0 - y2) * (z0 - z1)));
          l12 = sqrt ((x1 - x2) * (x1 - x2) + (y1 - y2) * (y1 - y2) + (z1 - z2) * (z1 - z2));
          la = ((y1 - y2) * ((x0 - x1) * (y0 - y2) - (x0 - x2) * (y0 - y1))
                + (z1 - z2) * ((x0 - x1) * (z0 - z2) - (x0 - x2) * (z0 - z1))) / a012 / l12;
          lb = - ((x1 - x2) * ((x0 - x1) * (y0 - y2) - (x0 - x2) * (y0 - y1))
                  - (z1 - z2) * ((y0 - y1) * (z0 - z2) - (y0 - y2) * (z0 - z1))) / a012 / l12;
          lc = - ((x1 - x2) * ((x0 - x1) * (z0 - z2) - (x0 - x2) * (z0 - z1))
                  + (y1 - y2) * ((y0 - y1) * (z0 - z2) - (y0 - y2) * (z0 - z1))) / a012 / l12;
          ld2 = a012 / l12;
          s = (if iterCount \<ge> 5 then 1 - 1.8 * \<bar>ld2\<bar> else 1)
      in (\<lparr>px = s * la, py = s * lb, pz = s * lc, intensity = s * ld2\<rparr>, s, ld2))"

definition surf_residual ::
  "nat \<Rightarrow> PointXYZI \<Rightarrow> PointXYZI \<Rightarrow> PointXYZI \<Rightarrow> PointXYZI \<Rightarrow> PointXYZI \<times> real \<times> real" where
  \<comment> \<open>lines 510 to 540: the coefficient, the weight \<open>s\<close> and the distance \<open>pd2\<close>\<close>
  "surf_residual iterCount pointSel tripod1 tripod2 tripod3 =
     (let pa0 = (py tripod2 - py tripod1) * (pz tripod3 - pz tripod1)
                - (py tripod3 - py tripod1) * (pz tripod2 - pz tripod1);
          pb0 = (pz tripod2 - pz tripod1) * (px tripod3 - px tripod1)
                - (pz tripod3 - pz tripod1) * (px tripod2 - px tripod1);
          pc0 = (px tripod2 - px tripod1) * (py tripod3 - py tripod1)
                - (px tripod3 - px tripod1) * (py tripod2 - py tripod1);
          pd0 = - (pa0 * px tripod1 + pb0 * py tripod1 + pc0 * pz tripod1);
          ps = sqrt (pa0 * pa0 + pb0 * pb0 + pc0 * pc0);
          pa = pa0 / ps; pb = pb0 / ps; pc = pc0 / ps; pd = pd0 / ps;
          pd2 = pa * px pointSel + pb * py pointSel + pc * pz pointSel + pd;
          s = (if iterCount \<ge> 5 then 1 - 1.8 * \<bar>pd2\<bar> / sqrt (calcPointDistance pointSel) else 1)
      in (\<lparr>px = s * pa, py = s * pb, pz = s * pc, intensity = s * pd2\<rparr>, s, pd2))"


section \<open>One pass over the query points\<close>

text \<open>
  \<open>pointSel\<close> is declared at the head of every solver iteration (line 341) and never
  assigned: both calls of \<open>transformToStart\<close> (lines 346 and 450) are commented out.  It
  therefore holds the default-constructed point throughout.
\<close>

definition pointSel_of :: "LaserOdometry \<Rightarrow> PointXYZI \<Rightarrow> PointXYZI" where
  \<comment> \<open>the value of \<open>pointSel\<close> while the query point \<open>q\<close> is processed\<close>
  "pointSel_of st q = PointXYZI_default"

definition corner_point :: "'aff External \<Rightarrow> nat \<Rightarrow> nat \<Rightarrow> LaserOdometry \<Rightarrow> LaserOdometry option" where
  \<comment> \<open>lines 345 to 447, the body for the sharp point \<open>i\<close>\<close>
  "corner_point ext iterCount i st =
     (let pointSel = pointSel_of st (cornerPointsSharp st ! i) in
      do {
        st1 \<leftarrow> (if iterCount mod 5 = 0 then
                 do {
                   let st0 = st\<lparr>lastCornerCloud := removeNaNFromPointCloud (lastCornerCloud st)\<rparr>;
                   found \<leftarrow> corner_search ext st0 (length (cornerPointsSharp st0)) pointSel;
                   Some (st0\<lparr>pointSearchCornerInd1 := (pointSearchCornerInd1 st0)[i := fst found],
                              pointSearchCornerInd2 := (pointSearchCornerInd2 st0)[i := snd found]\<rparr>)
                 }
               else Some st);
        if pointSearchCornerInd2 st1 ! i \<ge> 0 then
          do {
            tripod1 \<leftarrow> cloud_at (lastCornerCloud st1) (pointSearchCornerInd1 st1 ! i);
            tripod2 \<leftarrow> cloud_at (lastCornerCloud st1) (pointSearchCornerInd2 st1 ! i);
            Some (case corner_residual iterCount pointSel tripod1 tripod2 of
                    (coeff, s, ld2) \<Rightarrow>
                      if s > 0.1 \<and> ld2 \<noteq> 0
                      then st1\<lparr>laserCloudOri := laserCloudOri st1 @ [cornerPointsSharp st1 ! i],
                                coeffSel := coeffSel st1 @ [coeff]\<rparr>
                      else st1)
          }
        else Some st1
      })"

definition surf_point :: "'aff External \<Rightarrow> nat \<Rightarrow> nat \<Rightarrow> LaserOdometry \<Rightarrow> LaserOdometry option" where
  \<comment> \<open>lines 449 to 547, the body for the flat point \<open>i\<close>\<close>
  "surf_point ext iterCount i st =
     (let pointSel = pointSel_of st (surfPointsFlat st ! i) in
      do {
        st1 \<leftarrow> (if iterCount mod 5 = 0 then
                 do {
                   found \<leftarrow> surf_search ext st (length (surfPointsFlat st)) pointSel;
                   Some (st\<lparr>pointSearchSurfInd1 := (pointSearchSurfInd1 st)[i := fst found],
                             pointSearchSurfInd2 := (pointSearchSurfInd2 st)[i := fst (snd found)],
                             pointSearchSurfInd3 := (pointSearchSurfInd3 st)[i := snd (snd found)]\<rparr>)
                 }
               else Some st);
        if pointSearchSurfInd2 st1 ! i \<ge> 0 \<and> pointSearchSurfInd3 st1 ! i \<ge> 0 then
          do {
            tripod1 \<leftarrow> cloud_at (lastSurfaceCloud st1) (pointSearchSurfInd1 st1 ! i);
            tripod2 \<leftarrow> cloud_at (lastSurfaceCloud st1) (pointSearchSurfInd2 st1 ! i);
            tripod3 \<leftarrow> cloud_at (lastSurfaceCloud st1) (pointSearchSurfInd3 st1 ! i);
            Some (case surf_residual iterCount pointSel tripod1 tripod2 tripod3 of
                    (coeff, s, pd2) \<Rightarrow>
                      if s > 0.1 \<and> pd2 \<noteq> 0
                      then st1\<lparr>laserCloudOri := laserCloudOri st1 @ [surfPointsFlat st1 ! i],
                                coeffSel := coeffSel st1 @ [coeff]\<rparr>
                      else st1)
          }
        else Some st1
      })"

fun for_each :: "nat list \<Rightarrow> (nat \<Rightarrow> 's \<Rightarrow> 's option) \<Rightarrow> 's \<Rightarrow> 's option" where
  \<comment> \<open>a counted loop whose body may fail\<close>
  "for_each [] body st = Some st"
| "for_each (i # rest) body st = (case body i st of None \<Rightarrow> None | Some st' \<Rightarrow> for_each rest body st')"

section \<open>Normal equations and degeneracy\<close>

definition mat_vec :: "Matrix \<Rightarrow> real list \<Rightarrow> real list" where
  "mat_vec A v = map (\<lambda>row. sum_list (map2 (*) row v)) A"

definition mat_mul :: "Matrix \<Rightarrow> Matrix \<Rightarrow> Matrix" where
  "mat_mul A B = map (\<lambda>row. map (\<lambda>col. sum_list (map2 (*) row col)) (transpose B)) A"

definition jacobian_row :: "Twist \<Rightarrow> PointXYZI \<Rightarrow> PointXYZI \<Rightarrow> real list" where
  \<comment> \<open>lines 565 to 673, the branch \<open>selectMethodType == 1\<close> (the variable is the constant 1)\<close>
  "jacobian_row tr pointOri coeff =
     (let s = 1;
          srx = sin (s * rot_x tr); crx = cos (s * rot_x tr);
          sry = sin (s * rot_y tr); cry = cos (s * rot_y tr);
          srz = sin (s * rot_z tr); crz = cos (s * rot_z tr);
          tx = s * vx (pos tr); ty = s * vy (pos tr); tz = s * vz (pos tr);
          ox = px pointOri; oy = py pointOri; oz = pz pointOri;
          arx = s * (- ox * (crx * sry * srz)
                     + oy * (crx * crz * sry)
                     + oz * (srx * sry)
                     + tx * (crx * sry * srz)
                     - ty * (crx * crz * sry)
                     - tz * (srx * sry)) * px coeff
              + s * (ox * (srx * srz)
                     - oy * (crz * srx)
                     + oz * crx
                     - tx * (srx * srz)
                     + ty * (crz * srx)
                     - tz * crx) * py coeff
              + s * (ox * (crx * cry * srz)
                     - oy * (crx * cry * crz)
                     - oz * (cry * srx)
                     - tx * (crx * cry * srz)
                     + ty * (crx * cry * crz)
                     + tz * (cry * srx)) * pz coeff;
          ary = s * (- ox * (crz * sry + cry * srx * srz)
                     - oy * (sry * srz - cry * crz * srx)
                     - oz * (crx * cry)
                     + tx * (crz * sry + cry * srx * srz)
                     + ty * (sry * srz - cry * crz * srx)
                     + tz * (crx * cry)) * px coeff
              + s * (ox * (cry * crz - srx * sry * srz)
                     + oy * (cry * srz + crz * srx * sry)
                     - oz * (crx * sry)
                     - tx * (cry * crz - srx * sry * srz)
                     - ty * (cry * srz + crz * srx * sry)
                     + tz * (crx * sry)) * pz coeff;
          arz = s * (- ox * (cry * srz + crz * srx * sry)
                     + oy * (cry * crz - srx * sry * srz)
                     + tx * (cry * srz + crz * srx * sry)
                     - ty * (cry * crz - srx * sry * srz)) * px coeff
              + s * (- ox * (crx * crz)
                     - oy * (crx * srz)
                     + tx * crx * crz
                     + ty * crx * srz) * py coeff
              + s * (ox * (cry * crz * srx - sry * srz)
                     + oy * (crz * sry + cry * srx * srz)
                     + tx * (sry * srz - cry * crz * srx)
                     - ty * (crz * sry + cry * srx * srz)) * pz coeff;
          atx = - s * (cry * crz - srx * sry * srz) * px coeff
                + s * (crx * srz) * py coeff
                - s * (crz * sry + cry * srx * srz) * pz coeff;
          aty = - s * (cry * srz + crz * srx * sry) * px coeff
                - s * (crx * crz) * py coeff
                - s * (sry * srz - cry * crz * srx) * pz coeff;
          atz = s * (crx * sry) * px coeff
                - s * srx * py coeff
                - s * (crx * cry) * pz coeff
      in [arx, ary, arz, atx, aty, atz])"

definition eignThre :: "real list" where
  "eignThre = [10, 10, 10, 10, 10, 10]"

definition zero_row :: "Matrix \<Rightarrow> nat \<Rightarrow> Matrix" where
  \<comment> \<open>lines 697 to 699: \<open>matV2(i, j) = 0\<close> for \<open>j\<close> from 0 to 5\<close>
  "zero_row matV2 i = fold (\<lambda>j m. m[i := (m ! i)[j := 0]]) [0..<6] matV2"

fun degeneracy_scan :: "real list \<Rightarrow> nat \<Rightarrow> Matrix \<times> bool \<Rightarrow> Matrix \<times> bool" where
  \<comment> \<open>lines 695 to 704: the loop \<open>for (int i = 5; i >= 0; i--)\<close>; the second argument is
      \<open>i + 1\<close>, so the loop is entered with 6\<close>
  "degeneracy_scan matE 0 (matV2, isDegenerate) = (matV2, isDegenerate)"
| "degeneracy_scan matE (Suc i) (matV2, isDegenerate) =
     (if matE ! i < eignThre ! i
      then degeneracy_scan matE i (zero_row matV2 i, True)
      else (matV2, isDegenerate))"

definition projector :: "(Matrix \<Rightarrow> Matrix) \<Rightarrow> real list \<Rightarrow> Matrix \<Rightarrow> bool \<times> Matrix" where
  \<comment> \<open>lines 691 to 705, from the eigenvalues \<open>matE\<close> (ascending, as Eigen's
      \<open>SelfAdjointEigenSolver\<close> yields them) and the eigenvectors \<open>matV\<close> (its columns);
      the first argument is the matrix inverse\<close>
  "projector inverse_of matE matV =
     (case degeneracy_scan matE 6 (matV, False) of
        (matV2, isDegenerate) \<Rightarrow> (isDegenerate, mat_mul (inverse_of matV) matV2))"

definition degeneracy_analysis :: "'aff External \<Rightarrow> Matrix \<Rightarrow> bool \<times> Matrix" where
  \<comment> \<open>lines 683 to 705\<close>
  "degeneracy_analysis ext matAtA =
     projector (mat_inverse ext) (eigenvalues ext matAtA) (eigenvectors ext matAtA)"

definition sanitize :: "Twist \<Rightarrow> Twist" where
  \<comment> \<open>lines 721 to 727\<close>
  "sanitize tr =
     \<lparr>rot_x = (if \<not> pcl_isfinite (rot_x tr) then 0 else rot_x tr),
      rot_y = (if \<not> pcl_isfinite (rot_y tr) then 0 else rot_y tr),
      rot_z = (if \<not> pcl_isfinite (rot_z tr) then 0 else rot_z tr),
      pos = \<lparr>vx = (if \<not> pcl_isfinite (vx (pos tr)) then 0 else vx (pos tr)),
             vy = (if \<not> pcl_isfinite (vy (pos tr)) then 0 else vy (pos tr)),
             vz = (if \<not> pcl_isfinite (vz (pos tr)) then 0 else vz (pos tr))\<rparr>\<rparr>"

definition solve_update ::
  "'aff External \<Rightarrow> nat \<Rightarrow> LaserOdometry \<Rightarrow> bool \<Rightarrow> Matrix \<Rightarrow> LaserOdometry \<times> bool \<times> Matrix \<times> bool" where
  \<comment> \<open>lines 554 to 741: the new state, \<open>isDegenerate\<close>, \<open>matP\<close>, and whether the loop breaks\<close>
  "solve_update ext iterCount st isDegenerate matP =
     (let matA = map2 (jacobian_row (transform st)) (laserCloudOri st) (coeffSel st);
          matB = map (\<lambda>coeff. - 0.05 * intensity coeff) (coeffSel st);
          matAt = transpose matA;
          matAtA = mat_mul matAt matA;
          matAtB = mat_vec matAt matB;
          matX0 = qr_solve ext matAtA matAtB;
          deg = (if iterCount = 0 then degeneracy_analysis ext matAtA else (isDegenerate, matP));
          matX = (if fst deg then mat_vec (snd deg) matX0 else matX0);
          tr = transform st;
          tr1 = \<lparr>rot_x = rot_x tr + matX ! 0, rot_y = rot_y tr + matX ! 1, rot_z = rot_z tr + matX ! 2,
                 pos = \<lparr>vx = vx (pos tr) + matX ! 3, vy = vy (pos tr) + matX ! 4,
                        vz = vz (pos tr) + matX ! 5\<rparr>\<rparr>;
          deltaR = sqrt ((rad2deg (matX ! 0))\<^sup>2 + (rad2deg (matX ! 1))\<^sup>2 + (rad2deg (matX ! 2))\<^sup>2);
          deltaT = sqrt ((matX ! 3 * 100)\<^sup>2 + (matX ! 4 * 100)\<^sup>2 + (matX ! 5 * 100)\<^sup>2)
      in (st\<lparr>transform := sanitize tr1\<rparr>, fst deg, snd deg,
          deltaR < deltaRAbort (params st) \<and> deltaT < deltaTAbort (params st)))"

definition solver_iteration ::
  "'aff External \<Rightarrow> nat \<Rightarrow> LaserOdometry \<Rightarrow> bool \<Rightarrow> Matrix
     \<Rightarrow> (LaserOdometry \<times> bool \<times> Matrix \<times> bool) option" where
  \<comment> \<open>lines 341 to 741, one iteration of the solver loop\<close>
  "solver_iteration ext iterCount st isDegenerate matP =
     do {
       let st0 = st\<lparr>laserCloudOri := [], coeffSel := []\<rparr>;
       st1 \<leftarrow> for_each [0..<length (cornerPointsSharp st0)] (corner_point ext iterCount) st0;
       st2 \<leftarrow> for_each [0..<length (surfPointsFlat st1)] (surf_point ext iterCount) st1;
       Some (if length (laserCloudOri st2) < 10 then (st2, isDegenerate, matP, False)
             else solve_update ext iterCount st2 isDegenerate matP)
     }"

function solver_loop ::
  "'aff External \<Rightarrow> nat \<Rightarrow> nat \<Rightarrow> LaserOdometry \<times> bool \<times> Matrix \<Rightarrow> LaserOdometry option" where
  \<comment> \<open>line 340: the loop over \<open>iterCount\<close>, bounded by \<open>maxIterations\<close> (second argument;
      nothing in the loop writes the parameters)\<close>
  "solver_loop ext maxIt iterCount (st, isDegenerate, matP) =
     (if iterCount < maxIt then
        (case solver_iteration ext iterCount st isDegenerate matP of
           None \<Rightarrow> None
         | Some (st', isDegenerate', matP', converged) \<Rightarrow>
             if converged then Some st'
             else solver_loop ext maxIt (Suc iterCount) (st', isDegenerate', matP'))
      else Some st)"
  by pat_completeness auto
termination
  by (relation "measure (\<lambda>(ext, maxIt, iterCount, acc). maxIt - iterCount)") auto

definition resize :: "int list \<Rightarrow> nat \<Rightarrow> int list" where
  \<comment> \<open>\<open>std::vector<int>::resize\<close>: new elements are 0\<close>
  "resize v n = take n v @ replicate (n - length v) 0"

definition solver :: "'aff External \<Rightarrow> LaserOdometry \<Rightarrow> LaserOdometry option" where
  \<comment> \<open>lines 326 to 745\<close>
  "solver ext st =
     (let st1 = st\<lparr>cornerPointsSharp := removeNaNFromPointCloud (cornerPointsSharp st)\<rparr>;
          cornerPointsSharpNum = length (cornerPointsSharp st1);
          surfPointsFlatNum = length (surfPointsFlat st1);
          st2 = st1\<lparr>pointSearchCornerInd1 := resize (pointSearchCornerInd1 st1) cornerPointsSharpNum,
                    pointSearchCornerInd2 := resize (pointSearchCornerInd2 st1) cornerPointsSharpNum,
                    pointSearchSurfInd1 := resize (pointSearchSurfInd1 st1) surfPointsFlatNum,
                    pointSearchSurfInd2 := resize (pointSearchSurfInd2 st1) surfPointsFlatNum,
                    pointSearchSurfInd3 := resize (pointSearchSurfInd3 st1) surfPointsFlatNum\<rparr>
      in solver_loop ext (maxIterations (params st2)) 0 (st2, False, []))"

section \<open>The tick\<close>

definition process_init :: "LaserOdometry \<Rightarrow> LaserOdometry" where
  \<comment> \<open>lines 300 to 309, the initialization tick\<close>
  "process_init st =
     st\<lparr>cornerPointsLessSharp := lastCornerCloud st,
        lastCornerCloud := cornerPointsLessSharp st,
        surfPointsLessFlat := lastSurfaceCloud st,
        lastSurfaceCloud := surfPointsLessFlat st,
        lastCornerKDTree := Some (cornerPointsLessSharp st),
        lastSurfaceKDTree := Some (surfPointsLessFlat st),
        transformSum := (transformSum st)\<lparr>rot_x := rot_x (transformSum st) + imuPitchStart st,
                                          rot_z := rot_z (transformSum st) + imuRollStart st\<rparr>,
        systemInited := True\<rparr>"

definition pre_solve :: "LaserOdometry \<Rightarrow> LaserOdometry" where
  \<comment> \<open>lines 317 and 318\<close>
  "pre_solve st =
     st\<lparr>frameCount := frameCount st + 1,
        transform := (transform st)\<lparr>pos := vsub (pos (transform st))
                                             (vscale (imuVeloFromStart st) (scanPeriod (params st)))\<rparr>\<rparr>"

definition solve_stage :: "'aff External \<Rightarrow> LaserOdometry \<Rightarrow> LaserOdometry option" where
  \<comment> \<open>lines 322 to 746\<close>
  "solve_stage ext st =
     (if length (lastCornerCloud st) > 10 \<and> length (lastSurfaceCloud st) > 100
      then solver ext st else Some st)"

definition accumulate_and_swap :: "'aff External \<Rightarrow> LaserOdometry \<Rightarrow> LaserOdometry" where
  \<comment> \<open>lines 753 to 791; the branch of line 788 is empty (its two statements are
      commented out)\<close>
  "accumulate_and_swap ext st =
     (let corr = 1;
          tr = transform st;
          ts = transformSum st;
          acc = accumulateRotation ext (rot_x ts) (rot_y ts) (rot_z ts)
                  (- rot_x tr) (- rot_y tr * corr) (- rot_z tr);
          rx = fst acc; ry = fst (snd acc); rz = snd (snd acc);
          v = rotateZXY_vec \<lparr>vx = vx (pos tr) - vx (imuShiftFromStart st),
                             vy = vy (pos tr) - vy (imuShiftFromStart st),
                             vz = vz (pos tr) * corr - vz (imuShiftFromStart st)\<rparr> rz rx ry;
          trans = vsub (pos ts) v;
          plug = pluginIMURotation ext rx ry rz
                   (imuPitchStart st) (imuYawStart st) (imuRollStart st)
                   (imuPitchEnd st) (imuYawEnd st) (imuRollEnd st);
          st1 = st\<lparr>transformSum := \<lparr>rot_x = fst plug, rot_y = fst (snd plug),
                                     rot_z = snd (snd plug), pos = trans\<rparr>\<rparr>;
          st2 = st1\<lparr>cornerPointsLessSharp := transformToEnd st1 (cornerPointsLessSharp st1)\<rparr>;
          st3 = st2\<lparr>surfPointsLessFlat := transformToEnd st2 (surfPointsLessFlat st2)\<rparr>
      in st3\<lparr>cornerPointsLessSharp := lastCornerCloud st3,
             lastCornerCloud := cornerPointsLessSharp st3,
             surfPointsLessFlat := lastSurfaceCloud st3,
             lastSurfaceCloud := surfPointsLessFlat st3\<rparr>)"

definition process :: "'aff External \<Rightarrow> LaserOdometry \<Rightarrow> (bool \<times> LaserOdometry) option" where
  \<comment> \<open>the returned flag and the object after the call\<close>
  "process ext st =
     (if \<not> hasNewData st then Some (False, st)
      else if \<not> systemInited (reset st) then Some (False, process_init (reset st))
      else do {
             st2 \<leftarrow> solve_stage ext (pre_solve (reset st));
             Some (True, accumulate_and_swap ext st2)
           })"

definition generateRegisteredCloud ::
  "LaserOdometry \<Rightarrow> PointCloud \<Rightarrow> bool \<times> LaserOdometry \<times> PointCloud" where
  \<comment> \<open>the returned flag, the object and the argument \<open>registered_cloud\<close> after the call
      (the copy into the argument is commented out)\<close>
  "generateRegisteredCloud st registered_cloud =
     (if ioRatio (params st) < 2 \<or> frameCount st mod ioRatio (params st) = 1
      then (True, st\<lparr>laserCloudFullRes := transformToEnd st (laserCloudFullRes st)\<rparr>, registered_cloud)
      else (False, st, registered_cloud))"

section \<open>Trajectory logging (common.h)\<close>

text \<open>
  The formatting of a \<open>double\<close> by \<open>operator<<\<close> is a parameter \<open>fmt\<close>.  A file system
  holds the content of every existing file and says for which names
  \<open>open (filename, std::ios_base::app)\<close> succeeds; a successful open creates a missing
  file.  The code does not test the stream: when the open fails, the insertions and the
  close do nothing.
\<close>

type_synonym Matrix3d = "nat \<Rightarrow> nat \<Rightarrow> real"
type_synonym Vector3d = "nat \<Rightarrow> real"

record filesystem =
  files :: "string \<Rightarrow> string option"
  openable :: "string \<Rightarrow> bool"

definition pose_line :: "(real \<Rightarrow> string) \<Rightarrow> Matrix3d \<Rightarrow> Vector3d \<Rightarrow> string" where
  \<comment> \<open>lines 57 to 59: what is streamed into the file\<close>
  "pose_line fmt rot tr =
     fmt (rot 0 0) @ '' '' @ fmt (rot 0 1) @ '' '' @ fmt (rot 0 2) @ '' '' @ fmt (tr 0) @ '' ''
     @ fmt (rot 1 0) @ '' '' @ fmt (rot 1 1) @ '' '' @ fmt (rot 1 2) @ '' '' @ fmt (tr 1) @ '' ''
     @ fmt (rot 2 0) @ '' '' @ fmt (rot 2 1) @ '' '' @ fmt (rot 2 2) @ '' '' @ fmt (tr 2)
     @ [CHR 0x0A]"

definition savePoseToFile ::
  "(real \<Rightarrow> string) \<Rightarrow> Matrix3d \<Rightarrow> Vector3d \<Rightarrow> string \<Rightarrow> filesystem \<Rightarrow> filesystem" where
  "savePoseToFile fmt rot tr filename fs =
     (if openable fs filename
      then fs\<lparr>files := (files fs)(filename \<mapsto>
                  (case files fs filename of None \<Rightarrow> [] | Some old \<Rightarrow> old) @ pose_line fmt rot tr)\<rparr>
      else fs)"

declare solver_loop.simps [simp del]
declare corner_forward.simps [simp del]
declare corner_backward.simps [simp del]
declare surf_forward.simps [simp del]
declare surf_backward.simps [simp del]


section \<open>What the solver leaves alone\<close>

text \<open>
  The members that lines 326 to 745 never write (the two clouds they pass through
  \<open>removeNaNFromPointCloud\<close> keep every point).
\<close>

definition solver_frame :: "LaserOdometry \<Rightarrow> LaserOdometry \<Rightarrow> bool" where
  "solver_frame st st' \<longleftrightarrow>
     params st' = params st \<and> systemInited st' = systemInited st \<and> frameCount st' = frameCount st \<and>
     newCornerPointsSharp st' = newCornerPointsSharp st \<and>
     newCornerPointsLessSharp st' = newCornerPointsLessSharp st \<and>
     newSurfPointsFlat st' = newSurfPointsFlat st \<and>
     newSurfPointsLessFlat st' = newSurfPointsLessFlat st \<and>
     newLaserCloudFullRes st' = newLaserCloudFullRes st \<and>
     newImuTrans st' = newImuTrans st \<and>
     lastCornerKDTree st' = lastCornerKDTree st \<and>
     lastSurfaceKDTree st' = lastSurfaceKDTree st \<and>
     transformSum st' = transformSum st \<and>
     cornerPointsSharp st' = cornerPointsSharp st \<and>
     surfPointsFlat st' = surfPointsFlat st \<and>
     cornerPointsLessSharp st' = cornerPointsLessSharp st \<and>
     surfPointsLessFlat st' = surfPointsLessFlat st \<and>
     lastCornerCloud st' = lastCornerCloud st \<and>
     lastSurfaceCloud st' = lastSurfaceCloud st \<and>
     laserCloudFullRes st' = laserCloudFullRes st"


section \<open>Construction, inputs and example sweeps\<close>

definition LaserOdometry_init :: "LaserOdometryParams \<Rightarrow> LaserOdometry" where
  \<comment> \<open>the constructor (lines 53 to 80).  Modelled from the spec: the members it does not
      list (the two poses, the IMU hints, the caches) are default-constructed by headers
      that are not among the sources, and are zero or empty.\<close>
  "LaserOdometry_init p =
     \<lparr>params = p, systemInited = False, frameCount = 0,
      timeCornerPointsSharp = 0, timeCornerPointsLessSharp = 0, timeSurfPointsFlat = 0,
      timeSurfPointsLessFlat = 0, timeLaserCloudFullRes = 0, timeImuTrans = 0,
      newCornerPointsSharp = False, newCornerPointsLessSharp = False, newSurfPointsFlat = False,
      newSurfPointsLessFlat = False, newLaserCloudFullRes = False, newImuTrans = False,
      cornerPointsSharp = [], cornerPointsLessSharp = [], surfPointsFlat = [],
      surfPointsLessFlat = [], laserCloudFullRes = [], lastCornerCloud = [],
      lastSurfaceCloud = [], laserCloudOri = [], coeffSel = [],
      lastCornerKDTree = None, lastSurfaceKDTree = None,
      pointSearchCornerInd1 = [], pointSearchCornerInd2 = [], pointSearchSurfInd1 = [],
      pointSearchSurfInd2 = [], pointSearchSurfInd3 = [],
      transform = Twist_default, transformSum = Twist_default,
      imuRollStart = 0, imuPitchStart = 0, imuYawStart = 0,
      imuRollEnd = 0, imuPitchEnd = 0, imuYawEnd = 0,
      imuShiftFromStart = Vector3_zero, imuVeloFromStart = Vector3_zero\<rparr>"

text \<open>
  Between ticks the host installs the inputs of one sweep.
\<close>

definition install_sweep ::
  "LaserOdometry \<Rightarrow> Time \<Rightarrow> PointCloud \<Rightarrow> PointCloud \<Rightarrow> PointCloud \<Rightarrow> PointCloud \<Rightarrow> PointCloud \<Rightarrow> LaserOdometry" where
  \<comment> \<open>Modelled from the spec: the setters of LaserOdometry.h are not among the sources;
      the four feature clouds and the full-resolution cloud are installed, every stream is
      stamped \<open>t\<close> and flagged fresh.\<close>
  "install_sweep st t sharp lessSharp flat lessFlat fullRes =
     st\<lparr>timeCornerPointsSharp := t, timeCornerPointsLessSharp := t, timeSurfPointsFlat := t,
        timeSurfPointsLessFlat := t, timeLaserCloudFullRes := t, timeImuTrans := t,
        newCornerPointsSharp := True, newCornerPointsLessSharp := True, newSurfPointsFlat := True,
        newSurfPointsLessFlat := True, newLaserCloudFullRes := True, newImuTrans := True,
        cornerPointsSharp := sharp, cornerPointsLessSharp := lessSharp, surfPointsFlat := flat,
        surfPointsLessFlat := lessFlat, laserCloudFullRes := fullRes\<rparr>"

subsection \<open>An instance of the external routines\<close>

text \<open>
  Concrete inputs are run with this instance: the nearest neighbour by a linear scan of
  the indexed cloud, PCL's \<open>getTransformation\<close> and \<open>getEulerAngles\<close> on 4 by 4 matrices,
  the transpose as the inverse (the eigenvector matrices of the examples are
  orthonormal).  The examples never reach the linear solver and the eigensolver, which
  are constant here.
\<close>

fun nearest_scan :: "PointXYZI \<Rightarrow> PointCloud \<Rightarrow> nat \<Rightarrow> int \<times> real \<Rightarrow> int \<times> real" where
  "nearest_scan q [] k best = best"
| "nearest_scan q (p # ps) k best =
     nearest_scan q ps (Suc k)
       (if calcSquaredDiff p q < snd best then (int k, calcSquaredDiff p q) else best)"

definition linear_nearest :: "PointCloud option \<Rightarrow> PointXYZI \<Rightarrow> int \<times> real" where
  "linear_nearest tree q =
     (case tree of
        Some (p # ps) \<Rightarrow> nearest_scan q ps 1 (0, calcSquaredDiff p q)
      | _ \<Rightarrow> (0, 0))"

definition atan2_std :: "real \<Rightarrow> real \<Rightarrow> real" where
  "atan2_std y x =
     (if x > 0 then arctan (y / x)
      else if x < 0 then (if y \<ge> 0 then arctan (y / x) + pi else arctan (y / x) - pi)
      else if y > 0 then pi / 2 else if y < 0 then - pi / 2 else 0)"

definition pcl_getTransformation :: "real \<Rightarrow> real \<Rightarrow> real \<Rightarrow> real \<Rightarrow> real \<Rightarrow> real \<Rightarrow> Matrix" where
  "pcl_getTransformation x y z roll pitch yaw =
     (let A = cos yaw; B = sin yaw; C = cos pitch; D = sin pitch; E = cos roll; F = sin roll;
          DE = D * E; DF = D * F
      in [[A * C, A * DF - B * E, B * F + A * DE, x],
          [B * C, A * E + B * DF, B * DE - A * F, y],
          [- D, C * F, C * E, z],
          [0, 0, 0, 1]])"

definition pcl_getEulerAngles :: "Matrix \<Rightarrow> real \<times> real \<times> real" where
  "pcl_getEulerAngles t =
     (atan2_std (t ! 2 ! 1) (t ! 2 ! 2), arcsin (- (t ! 2 ! 0)), atan2_std (t ! 1 ! 0) (t ! 0 ! 0))"

definition ext_example :: "Matrix External" where
  "ext_example =
     \<lparr>nearestKSearch = linear_nearest,
      qr_solve = (\<lambda>A b. replicate 6 0),
      eigenvalues = (\<lambda>A. replicate 6 0),
      eigenvectors = (\<lambda>A. A),
      mat_inverse = transpose,
      getTransformation = pcl_getTransformation,
      affine_mul = mat_mul,
      getEulerAngles = pcl_getEulerAngles,
      atan2 = atan2_std\<rparr>"

definition example_params :: LaserOdometryParams where
  "example_params = \<lparr>scanPeriod = 0.1, maxIterations = 25, deltaRAbort = 0.1, deltaTAbort = 0.1, ioRatio = 2\<rparr>"

definition xyzi :: "real \<Rightarrow> real \<Rightarrow> real \<Rightarrow> real \<Rightarrow> PointXYZI" where
  "xyzi x y z i = \<lparr>px = x, py = y, pz = z, intensity = i\<rparr>"

definition cold_start_example :: LaserOdometry where
  "cold_start_example =
     install_sweep (LaserOdometry_init example_params) 7
       [xyzi 1 0 0 0] [xyzi 1 0 0 0, xyzi 2 0 0 1] [xyzi 0 1 0 0] [xyzi 0 1 0 0, xyzi 0 2 0 1] [xyzi 1 1 1 0]"

definition second_sweep_example :: LaserOdometry where
  "second_sweep_example =
     install_sweep (process_init (reset cold_start_example)) 8
       [xyzi 1 0 0 0] [xyzi 3 0 0 0] [xyzi 0 1 0 0] [xyzi 0 3 0 0] [xyzi 1 1 1 0]"


section \<open>The gate and the reachable objects\<close>



text \<open>
  The objects a host can bring about: it constructs the object, installs inputs between
  ticks, and calls \<open>process\<close>.
\<close>

definition host_update :: "LaserOdometry \<Rightarrow> LaserOdometry \<Rightarrow> bool" where
  \<comment> \<open>Modelled from the spec: LaserOdometry.h is not among the sources; the host writes
      the inputs (clouds, IMU hints, time stamps, fresh flags) and nothing else.\<close>
  "host_update st st' \<longleftrightarrow>
     params st' = params st \<and> systemInited st' = systemInited st \<and>
     frameCount st' = frameCount st \<and> transform st' = transform st \<and>
     transformSum st' = transformSum st \<and>
     lastCornerCloud st' = lastCornerCloud st \<and> lastSurfaceCloud st' = lastSurfaceCloud st \<and>
     lastCornerKDTree st' = lastCornerKDTree st \<and> lastSurfaceKDTree st' = lastSurfaceKDTree st"

inductive reachable :: "'aff External \<Rightarrow> LaserOdometryParams \<Rightarrow> LaserOdometry \<Rightarrow> bool"
  for ext :: "'aff External" and p :: LaserOdometryParams where
  constructed: "reachable ext p (LaserOdometry_init p)"
| host: "reachable ext p st \<Longrightarrow> host_update st st' \<Longrightarrow> reachable ext p st'"
| tick: "reachable ext p st \<Longrightarrow> process ext st = Some (r, st') \<Longrightarrow> reachable ext p st'"


section \<open>Example objects\<close>

definition cold_start_imu_example :: LaserOdometry where
  \<comment> \<open>a first sweep with IMU pitch 0.1 and roll 0.2 at its start\<close>
  "cold_start_imu_example = cold_start_example\<lparr>imuPitchStart := 1 / 10, imuRollStart := 1 / 5\<rparr>"


definition drift_example :: LaserOdometry where
  \<comment> \<open>a second sweep with IMU velocity \<open>(1, 0, 0)\<close>\<close>
  "drift_example = second_sweep_example\<lparr>imuVeloFromStart := \<lparr>vx = 1, vy = 0, vz = 0\<rparr>\<rparr>"

definition third_sweep_example :: LaserOdometry where
  \<comment> \<open>the object after the tick on \<open>drift_example\<close>, with a third sweep installed\<close>
  "third_sweep_example =
     install_sweep (accumulate_and_swap ext_example (pre_solve (reset drift_example))) 9
       [xyzi 1 0 0 0] [xyzi 4 0 0 0] [xyzi 0 1 0 0] [xyzi 0 4 0 0] [xyzi 1 1 1 0]"


definition decimation_example :: "nat \<Rightarrow> LaserOdometry" where
  "decimation_example n =
     (LaserOdometry_init (example_params\<lparr>ioRatio := 3\<rparr>))\<lparr>frameCount := n, laserCloudFullRes := [xyzi 1 2 3 0]\<rparr>"

section \<open>The logged line, as a list of entries\<close>

text \<open>
  \<open>nine_then_three\<close> is the line in the words of the spec: the nine rotation entries
  followed by the three translation entries.  \<open>row_major_3x4\<close> is the 3 by 4 matrix
  \<open>[R | t]\<close> row by row.
\<close>

fun join_space :: "string list \<Rightarrow> string" where
  "join_space [] = []"
| "join_space [w] = w"
| "join_space (w # v # ws) = w @ '' '' @ join_space (v # ws)"

definition nine_then_three :: "(real \<Rightarrow> string) \<Rightarrow> Matrix3d \<Rightarrow> Vector3d \<Rightarrow> string" where
  "nine_then_three fmt rot tr =
     join_space (map fmt ([rot 0 0, rot 0 1, rot 0 2, rot 1 0, rot 1 1, rot 1 2,
                           rot 2 0, rot 2 1, rot 2 2] @ [tr 0, tr 1, tr 2])) @ [CHR 0x0A]"

definition row_major_3x4 :: "(real \<Rightarrow> string) \<Rightarrow> Matrix3d \<Rightarrow> Vector3d \<Rightarrow> string" where
  "row_major_3x4 fmt rot tr =
     join_space (map fmt (concat (map (\<lambda>i. [rot i 0, rot i 1, rot i 2, tr i]) [0, 1, 2])))
     @ [CHR 0x0A]"

definition fmt_bit :: "real \<Rightarrow> string" where
  \<comment> \<open>a formatter for the examples: right on 0 and on 1\<close>
  "fmt_bit r = (if r = 0 then ''0'' else ''1'')"

definition Matrix3d_identity :: Matrix3d where
  "Matrix3d_identity i j = (if i = j then 1 else 0)"

definition Vector3d_zero :: Vector3d where
  "Vector3d_zero i = 0"

definition example_files :: filesystem where
  \<comment> \<open>two files; \<open>poses.txt\<close> and the missing \<open>new.txt\<close> can be opened for appending,
      nothing else can\<close>
  "example_files =
     \<lparr>files = [''poses.txt'' \<mapsto> ''first'' @ [CHR 0x0A], ''other.txt'' \<mapsto> ''kept''],
      openable = (\<lambda>name. name = ''poses.txt'' \<or> name = ''new.txt'')\<rparr>"


section \<open>Example matrices and dense example sweeps\<close>

definition rotated6 :: Matrix where
  \<comment> \<open>orthonormal eigenvectors (columns) of \<open>weak_direction_AtA\<close>\<close>
  "rotated6 =
     [[3 / 5, - (4 / 5), 0, 0, 0, 0],
      [4 / 5, 3 / 5, 0, 0, 0, 0],
      [0, 0, 1, 0, 0, 0],
      [0, 0, 0, 1, 0, 0],
      [0, 0, 0, 0, 1, 0],
      [0, 0, 0, 0, 0, 1]]"

definition identity6 :: Matrix where
  "identity6 =
     [[1, 0, 0, 0, 0, 0],
      [0, 1, 0, 0, 0, 0],
      [0, 0, 1, 0, 0, 0],
      [0, 0, 0, 1, 0, 0],
      [0, 0, 0, 0, 1, 0],
      [0, 0, 0, 0, 0, 1]]"

definition weak_direction_AtA :: Matrix where
  \<comment> \<open>a normal matrix with the eigenvalues 1, 20, 20, 20, 20, 20\<close>
  "weak_direction_AtA =
     [[329 / 25, - (228 / 25), 0, 0, 0, 0],
      [- (228 / 25), 196 / 25, 0, 0, 0, 0],
      [0, 0, 20, 0, 0, 0],
      [0, 0, 0, 20, 0, 0],
      [0, 0, 0, 0, 20, 0],
      [0, 0, 0, 0, 0, 20]]"


definition ring0_line :: "nat \<Rightarrow> PointCloud" where
  \<comment> \<open>\<open>n\<close> points of ring 0 on the x axis, at 0, 1, 2, ...\<close>
  "ring0_line n = map (\<lambda>k. xyzi (real k) 0 0 0) [0..<n]"

definition ring0_column :: "nat \<Rightarrow> PointCloud" where
  \<comment> \<open>\<open>n\<close> points of ring 0 on the y axis\<close>
  "ring0_column n = map (\<lambda>k. xyzi 0 (real k) 0 0) [0..<n]"

definition dense_first_sweep :: LaserOdometry where
  "dense_first_sweep =
     install_sweep (LaserOdometry_init (example_params\<lparr>maxIterations := 1\<rparr>)) 1
       [] (ring0_line 11) [] (ring0_column 101) []"

definition overrun_example :: LaserOdometry where
  "overrun_example =
     install_sweep (process_init (reset dense_first_sweep)) 2
       (ring0_line 12) (ring0_line 11) [xyzi 0 1 0 0] (ring0_column 101) []"


definition far_query_example :: LaserOdometry where
  "far_query_example =
     install_sweep (process_init (reset dense_first_sweep)) 2
       [xyzi 100 0 0 0] (ring0_line 11) [xyzi 0 100 0 0] (ring0_column 101) []"


subsection \<open>Example objects in motion and a dense second sweep\<close>

text \<open>
  \<open>export_example\<close> and \<open>sparse_tick_example\<close> carry a quarter turn about the y axis as
  incremental transform, a quarter turn of IMU roll at the sweep end and an IMU shift, so
  that neither the de-skew nor the pose accumulation is the identity on them.
  \<open>dense_second_sweep\<close> is the object after the initialization tick on
  \<open>dense_first_sweep\<close> with a second sweep of 11 less-sharp and 101 less-flat points
  installed, each one unit beside the first sweep's.
\<close>

definition export_example :: LaserOdometry where
  "export_example =
     (LaserOdometry_init (example_params\<lparr>ioRatio := 3\<rparr>))
       \<lparr>frameCount := 1,
        laserCloudFullRes := [xyzi 1 2 3 2, xyzi 1 2 3 (21 / 10)],
        transform := \<lparr>rot_x = 0, rot_y = pi / 2, rot_z = 0, pos = \<lparr>vx = 1, vy = 0, vz = 0\<rparr>\<rparr>,
        imuRollEnd := pi / 2,
        imuShiftFromStart := \<lparr>vx = 0, vy = 1, vz = 0\<rparr>\<rparr>"

definition sparse_tick_example :: LaserOdometry where
  "sparse_tick_example =
     second_sweep_example
       \<lparr>cornerPointsLessSharp := [xyzi 1 2 3 2, xyzi 1 2 3 (21 / 10)],
        surfPointsLessFlat := [xyzi 0 0 1 0],
        transform := \<lparr>rot_x = 0, rot_y = pi / 2, rot_z = 0, pos = \<lparr>vx = 2, vy = 0, vz = 0\<rparr>\<rparr>,
        transformSum := \<lparr>rot_x = 0, rot_y = 0, rot_z = 0, pos = \<lparr>vx = 5, vy = 5, vz = 5\<rparr>\<rparr>,
        imuRollEnd := pi / 2,
        imuShiftFromStart := \<lparr>vx = 0, vy = 1, vz = 0\<rparr>,
        imuVeloFromStart := \<lparr>vx = 10, vy = 0, vz = 0\<rparr>\<rparr>"

definition shifted_line :: "nat \<Rightarrow> PointCloud" where
  "shifted_line n = map (\<lambda>k. xyzi (real k) 1 0 0) [0..<n]"

definition shifted_column :: "nat \<Rightarrow> PointCloud" where
  "shifted_column n = map (\<lambda>k. xyzi 1 (real k) 0 0) [0..<n]"

definition dense_second_sweep :: LaserOdometry where
  "dense_second_sweep =
     install_sweep (process_init (reset dense_first_sweep)) 2
       [xyzi 100 0 0 0] (shifted_line 11) [xyzi 0 100 0 0] (shifted_column 101) []"

section \<open>Properties of the solver frame\<close>

lemma removeNaN_id: "removeNaNFromPointCloud cloud = cloud"
  by (simp add: removeNaNFromPointCloud_def pcl_isfinite_def)

lemma solver_frame_refl: "solver_frame st st"
  by (simp add: solver_frame_def)

lemma solver_frame_trans: "solver_frame a b \<Longrightarrow> solver_frame b c \<Longrightarrow> solver_frame a c"
  by (simp add: solver_frame_def)

lemma corner_point_frame:
  assumes "corner_point ext iterCount i st = Some st'"
  shows "solver_frame st st'"
proof -
  let ?sel = "pointSel_of st (cornerPointsSharp st ! i)"
  let ?st0 = "st\<lparr>lastCornerCloud := removeNaNFromPointCloud (lastCornerCloud st)\<rparr>"
  let ?search = "if iterCount mod 5 = 0 then
       Option.bind (corner_search ext ?st0 (length (cornerPointsSharp ?st0)) ?sel)
         (\<lambda>found. Some (?st0\<lparr>pointSearchCornerInd1 := (pointSearchCornerInd1 ?st0)[i := fst found],
                              pointSearchCornerInd2 := (pointSearchCornerInd2 ?st0)[i := snd found]\<rparr>))
     else Some st"
  from assms obtain st1 where
    s1: "?search = Some st1" and
    s2: "(if pointSearchCornerInd2 st1 ! i \<ge> 0 then
            Option.bind (cloud_at (lastCornerCloud st1) (pointSearchCornerInd1 st1 ! i)) (\<lambda>tripod1.
            Option.bind (cloud_at (lastCornerCloud st1) (pointSearchCornerInd2 st1 ! i)) (\<lambda>tripod2.
              Some (case corner_residual iterCount ?sel tripod1 tripod2 of
                    (coeff, s, ld2) \<Rightarrow>
                      if s > 0.1 \<and> ld2 \<noteq> 0
                      then st1\<lparr>laserCloudOri := laserCloudOri st1 @ [cornerPointsSharp st1 ! i],
                                coeffSel := coeffSel st1 @ [coeff]\<rparr>
                      else st1)))
          else Some st1) = Some st'"
    unfolding corner_point_def Let_def by (cases ?search) simp_all
  have f1: "solver_frame st st1"
  proof (cases "iterCount mod 5 = 0")
    case False
    with s1 show ?thesis by (simp add: solver_frame_def)
  next
    case True
    with s1 obtain found where
      "st1 = ?st0\<lparr>pointSearchCornerInd1 := (pointSearchCornerInd1 ?st0)[i := fst found],
                   pointSearchCornerInd2 := (pointSearchCornerInd2 ?st0)[i := snd found]\<rparr>"
      by (cases "corner_search ext ?st0 (length (cornerPointsSharp ?st0)) ?sel") auto
    then show ?thesis by (simp add: solver_frame_def removeNaN_id)
  qed
  have f2: "solver_frame st1 st'"
  proof (cases "pointSearchCornerInd2 st1 ! i \<ge> 0")
    case False
    with s2 show ?thesis by (simp add: solver_frame_def)
  next
    case True
    with s2 obtain tripod1 tripod2 where
      r: "st' = (case corner_residual iterCount ?sel tripod1 tripod2 of
                    (coeff, s, ld2) \<Rightarrow>
                      if s > 0.1 \<and> ld2 \<noteq> 0
                      then st1\<lparr>laserCloudOri := laserCloudOri st1 @ [cornerPointsSharp st1 ! i],
                                coeffSel := coeffSel st1 @ [coeff]\<rparr>
                      else st1)"
      by (auto simp: bind_eq_Some_conv)
    obtain coeff s ld2 where c: "corner_residual iterCount ?sel tripod1 tripod2 = (coeff, s, ld2)"
      by (cases "corner_residual iterCount ?sel tripod1 tripod2") auto
    show ?thesis
      unfolding r c by (simp add: solver_frame_def)
  qed
  from f1 f2 show ?thesis by (rule solver_frame_trans)
qed

lemma surf_point_frame:
  assumes "surf_point ext iterCount i st = Some st'"
  shows "solver_frame st st'"
proof -
  let ?sel = "pointSel_of st (surfPointsFlat st ! i)"
  let ?search = "if iterCount mod 5 = 0 then
       Option.bind (surf_search ext st (length (surfPointsFlat st)) ?sel)
         (\<lambda>found. Some (st\<lparr>pointSearchSurfInd1 := (pointSearchSurfInd1 st)[i := fst found],
                             pointSearchSurfInd2 := (pointSearchSurfInd2 st)[i := fst (snd found)],
                             pointSearchSurfInd3 := (pointSearchSurfInd3 st)[i := snd (snd found)]\<rparr>))
     else Some st"
  from assms obtain st1 where
    s1: "?search = Some st1" and
    s2: "(if pointSearchSurfInd2 st1 ! i \<ge> 0 \<and> pointSearchSurfInd3 st1 ! i \<ge> 0 then
            Option.bind (cloud_at (lastSurfaceCloud st1) (pointSearchSurfInd1 st1 ! i)) (\<lambda>tripod1.
            Option.bind (cloud_at (lastSurfaceCloud st1) (pointSearchSurfInd2 st1 ! i)) (\<lambda>tripod2.
            Option.bind (cloud_at (lastSurfaceCloud st1) (pointSearchSurfInd3 st1 ! i)) (\<lambda>tripod3.
              Some (case surf_residual iterCount ?sel tripod1 tripod2 tripod3 of
                    (coeff, s, pd2) \<Rightarrow>
                      if s > 0.1 \<and> pd2 \<noteq> 0
                      then st1\<lparr>laserCloudOri := laserCloudOri st1 @ [surfPointsFlat st1 ! i],
                                coeffSel := coeffSel st1 @ [coeff]\<rparr>
                      else st1))))
          else Some st1) = Some st'"
    unfolding surf_point_def Let_def by (cases ?search) simp_all
  have f1: "solver_frame st st1"
  proof (cases "iterCount mod 5 = 0")
    case False
    with s1 show ?thesis by (simp add: solver_frame_def)
  next
    case True
    with s1 obtain found where
      "st1 = st\<lparr>pointSearchSurfInd1 := (pointSearchSurfInd1 st)[i := fst found],
                 pointSearchSurfInd2 := (pointSearchSurfInd2 st)[i := fst (snd found)],
                 pointSearchSurfInd3 := (pointSearchSurfInd3 st)[i := snd (snd found)]\<rparr>"
      by (cases "surf_search ext st (length (surfPointsFlat st)) ?sel") auto
    then show ?thesis by (simp add: solver_frame_def)
  qed
  have f2: "solver_frame st1 st'"
  proof (cases "pointSearchSurfInd2 st1 ! i \<ge> 0 \<and> pointSearchSurfInd3 st1 ! i \<ge> 0")
    case False
    with s2 show ?thesis by (simp add: solver_frame_def)
  next
    case True
    with s2 obtain tripod1 tripod2 tripod3 where
      r: "st' = (case surf_residual iterCount ?sel tripod1 tripod2 tripod3 of
                    (coeff, s, pd2) \<Rightarrow>
                      if s > 0.1 \<and> pd2 \<noteq> 0
                      then st1\<lparr>laserCloudOri := laserCloudOri st1 @ [surfPointsFlat st1 ! i],
                                coeffSel := coeffSel st1 @ [coeff]\<rparr>
                      else st1)"
      by (auto simp: bind_eq_Some_conv)
    obtain coeff s pd2 where c: "surf_residual iterCount ?sel tripod1 tripod2 tripod3 = (coeff, s, pd2)"
      by (cases "surf_residual iterCount ?sel tripod1 tripod2 tripod3") auto
    show ?thesis
      unfolding r c by (simp add: solver_frame_def)
  qed
  from f1 f2 show ?thesis by (rule solver_frame_trans)
qed

lemma for_each_frame:
  assumes "\<And>i a b. body i a = Some b \<Longrightarrow> solver_frame a b"
  shows "for_each is body st = Some st' \<Longrightarrow> solver_frame st st'"
proof (induction "is" arbitrary: st)
  case Nil
  then show ?case by (simp add: solver_frame_refl)
next
  case (Cons i rest)
  then show ?case
    by (auto split: option.splits intro: solver_frame_trans assms)
qed

lemma solve_update_frame:
  "solve_update ext iterCount st d P = (st', d', P', c) \<Longrightarrow> solver_frame st st'"
  by (auto simp: solve_update_def solver_frame_def Let_def)

lemma solver_iteration_frame:
  assumes "solver_iteration ext iterCount st d P = Some (st', d', P', c)"
  shows "solver_frame st st'"
proof -
  let ?st0 = "st\<lparr>laserCloudOri := [], coeffSel := []\<rparr>"
  from assms obtain st1 st2 where
    s1: "for_each [0..<length (cornerPointsSharp ?st0)] (corner_point ext iterCount) ?st0 = Some st1" and
    s2: "for_each [0..<length (surfPointsFlat st1)] (surf_point ext iterCount) st1 = Some st2" and
    s3: "(if length (laserCloudOri st2) < 10 then (st2, d, P, False)
          else solve_update ext iterCount st2 d P) = (st', d', P', c)"
    by (auto simp: solver_iteration_def Let_def bind_eq_Some_conv)
  have f0: "solver_frame st ?st0" by (simp add: solver_frame_def)
  have f1: "solver_frame ?st0 st1" using s1 corner_point_frame by (rule for_each_frame[rotated])
  have f2: "solver_frame st1 st2" using s2 surf_point_frame by (rule for_each_frame[rotated])
  have f3: "solver_frame st2 st'"
    using s3 by (auto split: if_splits simp: solver_frame_refl dest: solve_update_frame)
  show ?thesis using f0 f1 f2 f3 by (blast intro: solver_frame_trans)
qed

lemma solver_loop_frame:
  "solver_loop ext maxIt iterCount (st, d, P) = Some st' \<Longrightarrow> solver_frame st st'"
proof (induction ext maxIt iterCount "(st, d, P)" arbitrary: st d P rule: solver_loop.induct)
  case (1 ext maxIt iterCount st isDegenerate matP)
  show ?case
  proof (cases "iterCount < maxIt")
    case False
    with "1.prems" show ?thesis by (simp add: solver_loop.simps solver_frame_refl)
  next
    case True
    with "1.prems" obtain st1 d1 P1 c where
      it: "solver_iteration ext iterCount st isDegenerate matP = Some (st1, d1, P1, c)"
      by (auto simp: solver_loop.simps[of ext maxIt iterCount] split: option.splits)
    have f1: "solver_frame st st1" using it by (rule solver_iteration_frame)
    show ?thesis
    proof (cases c)
      case True
      with "1.prems" it \<open>iterCount < maxIt\<close> have "st' = st1"
        by (simp add: solver_loop.simps[of ext maxIt iterCount])
      with f1 show ?thesis by simp
    next
      case False
      with "1.prems" it \<open>iterCount < maxIt\<close>
      have "solver_loop ext maxIt (Suc iterCount) (st1, d1, P1) = Some st'"
        by (simp add: solver_loop.simps[of ext maxIt iterCount])
      with "1.hyps"[OF \<open>iterCount < maxIt\<close> it refl refl refl] False
      have "solver_frame st1 st'" by auto
      with f1 show ?thesis by (blast intro: solver_frame_trans)
    qed
  qed
qed

lemma solver_frame_solver: "solver ext st = Some st' \<Longrightarrow> solver_frame st st'"
proof -
  assume a: "solver ext st = Some st'"
  let ?st1 = "st\<lparr>cornerPointsSharp := removeNaNFromPointCloud (cornerPointsSharp st)\<rparr>"
  let ?st2 = "?st1\<lparr>pointSearchCornerInd1 := resize (pointSearchCornerInd1 ?st1) (length (cornerPointsSharp ?st1)),
                    pointSearchCornerInd2 := resize (pointSearchCornerInd2 ?st1) (length (cornerPointsSharp ?st1)),
                    pointSearchSurfInd1 := resize (pointSearchSurfInd1 ?st1) (length (surfPointsFlat ?st1)),
                    pointSearchSurfInd2 := resize (pointSearchSurfInd2 ?st1) (length (surfPointsFlat ?st1)),
                    pointSearchSurfInd3 := resize (pointSearchSurfInd3 ?st1) (length (surfPointsFlat ?st1))\<rparr>"
  from a have "solver_loop ext (maxIterations (params ?st2)) 0 (?st2, False, []) = Some st'"
    unfolding solver_def Let_def .
  then have "solver_frame ?st2 st'" by (rule solver_loop_frame)
  moreover have "solver_frame st ?st2" by (simp add: solver_frame_def removeNaN_id)
  ultimately show ?thesis by (blast intro: solver_frame_trans)
qed

lemma solve_stage_frame: "solve_stage ext st = Some st' \<Longrightarrow> solver_frame st st'"
  by (auto simp: solve_stage_def solver_frame_refl split: if_splits dest: solver_frame_solver)


section \<open>Properties of the tick\<close>

lemma systemInited_reset: "systemInited (reset st) = systemInited st"
  by (simp add: reset_def)

lemma process_idle: "\<not> hasNewData st \<Longrightarrow> process ext st = Some (False, st)"
  by (simp add: process_def)

lemma process_cold:
  "hasNewData st \<Longrightarrow> \<not> systemInited st \<Longrightarrow> process ext st = Some (False, process_init (reset st))"
  by (simp add: process_def systemInited_reset)

lemma process_tick:
  "hasNewData st \<Longrightarrow> systemInited st \<Longrightarrow>
   process ext st = Option.bind (solve_stage ext (pre_solve (reset st)))
                      (\<lambda>st2. Some (True, accumulate_and_swap ext st2))"
  by (simp add: process_def systemInited_reset)




lemma second_sweep_example_gate: "hasNewData second_sweep_example"
  by (simp add: hasNewData_def second_sweep_example_def install_sweep_def)

lemma second_sweep_example_inited: "systemInited second_sweep_example"
  by (simp add: second_sweep_example_def install_sweep_def process_init_def)

lemma second_sweep_example_unsolved: "solve_stage ext_example (pre_solve (reset second_sweep_example)) = Some (pre_solve (reset second_sweep_example))"
  by (simp add: solve_stage_def second_sweep_example_def install_sweep_def process_init_def pre_solve_def reset_def
       cold_start_example_def)

lemma second_sweep_example_index: "lastCornerKDTree (snd (the (process ext_example second_sweep_example))) = Some [xyzi 1 0 0 0, xyzi 2 0 0 1]"
  apply (simp add: process_tick[OF second_sweep_example_gate second_sweep_example_inited] second_sweep_example_unsolved)
  apply (simp add: second_sweep_example_def install_sweep_def process_init_def pre_solve_def reset_def
       cold_start_example_def LaserOdometry_init_def accumulate_and_swap_def Let_def)
  done

lemma second_sweep_example_cloud: "lastCornerCloud (snd (the (process ext_example second_sweep_example))) = [xyzi 3 0 0 0]"
  apply (simp add: process_tick[OF second_sweep_example_gate second_sweep_example_inited] second_sweep_example_unsolved)
  apply (simp add: second_sweep_example_def install_sweep_def process_init_def pre_solve_def reset_def
       cold_start_example_def LaserOdometry_init_def accumulate_and_swap_def Let_def
       transformToEnd_def transformToEnd_point_def xyzi_def Twist_default_def Vector3_zero_def
       vsub_def vscale_def int_of_float_def rotateZXY_point_def rotateYXZ_point_def rotateZXY_def rotateYXZ_def
       rotX_def rotY_def rotZ_def)
  done








lemma process_cases:
  assumes "process ext st = Some (r, st')"
  obtains (idle) "\<not> hasNewData st" "r = False" "st' = st"
  | (cold) "hasNewData st" "\<not> systemInited st" "r = False" "st' = process_init (reset st)"
  | (solve) st2 where "hasNewData st" "systemInited st" "r = True"
      "solve_stage ext (pre_solve (reset st)) = Some st2" "st' = accumulate_and_swap ext st2"
proof (cases "hasNewData st")
  case False
  then have "process ext st = Some (False, st)" by (rule process_idle)
  with assms have "r = False" "st' = st" by simp_all
  with False show ?thesis by (rule idle)
next
  case True
  show ?thesis
  proof (cases "systemInited st")
    case False
    with True have "process ext st = Some (False, process_init (reset st))" by (rule process_cold)
    with assms have "r = False" "st' = process_init (reset st)" by simp_all
    with True False show ?thesis by (rule cold)
  next
    case i: True
    from assms obtain st2 where
      "r = True" "solve_stage ext (pre_solve (reset st)) = Some st2" "st' = accumulate_and_swap ext st2"
      unfolding process_tick[OF True i] by (auto simp: bind_eq_Some_conv)
    with True i show ?thesis by (rule solve)
  qed
qed





lemma systemInited_frame: "solver_frame st st' \<Longrightarrow> systemInited st' = systemInited st"
  by (simp add: solver_frame_def)

lemma systemInited_accumulate: "systemInited (accumulate_and_swap ext st) = systemInited st"
  by (simp add: accumulate_and_swap_def Let_def)

lemma systemInited_pre_solve: "systemInited (pre_solve st) = systemInited st"
  by (simp add: pre_solve_def)

lemma reachable_cold:
  "reachable ext p st \<Longrightarrow> \<not> systemInited st \<Longrightarrow> transformSum st = Twist_default"
proof (induction rule: reachable.induct)
  case constructed
  show ?case by (simp add: LaserOdometry_init_def)
next
  case (host st st')
  then show ?case by (simp add: host_update_def)
next
  case (tick st r st')
  from tick.hyps(2) show ?case
  proof (cases rule: process_cases)
    case idle
    with tick show ?thesis by simp
  next
    case cold
    then have "systemInited st'" by (simp add: process_init_def)
    with tick.prems show ?thesis by simp
  next
    case (solve st2)
    have "solver_frame (pre_solve (reset st)) st2" using solve(4) by (rule solve_stage_frame)
    then have "systemInited st2" 
      using solve(2) by (simp add: systemInited_frame systemInited_pre_solve systemInited_reset)
    then have "systemInited st'" using solve(5) by (simp add: systemInited_accumulate)
    with tick.prems show ?thesis by simp
  qed
qed

text \<open>
  Claim C6.  On the first call of \<open>process\<close> with complete gated data, that is on an
  object a host can bring about that is not yet initialized, \<open>process\<close> returns false,
  the object is initialized, the previous-sweep slots (and the two indices) hold that
  tick's less-sharp and less-flat clouds, nothing is solved (the incremental transform,
  the frame count and the solver's buffers are as before), and the accumulated pose is
  the rotation \<open>(imuPitchStart, 0, imuRollStart)\<close> with zero translation.
\<close>

theorem cold_start:
  assumes "reachable ext p st" and "hasNewData st" and "\<not> systemInited st"
  shows "\<exists>st'. process ext st = Some (False, st') \<and> systemInited st' \<and>
           lastCornerCloud st' = cornerPointsLessSharp st \<and>
           lastSurfaceCloud st' = surfPointsLessFlat st \<and>
           lastCornerKDTree st' = Some (cornerPointsLessSharp st) \<and>
           lastSurfaceKDTree st' = Some (surfPointsLessFlat st) \<and>
           transform st' = transform st \<and> frameCount st' = frameCount st \<and>
           laserCloudOri st' = laserCloudOri st \<and> coeffSel st' = coeffSel st \<and>
           transformSum st' = \<lparr>rot_x = imuPitchStart st, rot_y = 0, rot_z = imuRollStart st,
                                pos = Vector3_zero\<rparr>"
proof -
  have z: "transformSum st = Twist_default" using assms(1,3) by (rule reachable_cold)
  have p: "process ext st = Some (False, process_init (reset st))"
    using assms(2,3) by (rule process_cold)
  have "transformSum (process_init (reset st))
          = \<lparr>rot_x = imuPitchStart st, rot_y = 0, rot_z = imuRollStart st, pos = Vector3_zero\<rparr>"
    using z by (simp add: process_init_def reset_def Twist_default_def)
  then show ?thesis
    using p by (simp add: process_init_def reset_def)
qed

lemma cold_start_imu_example_reachable: "reachable ext_example example_params cold_start_imu_example"
proof (rule reachable.host)
  show "reachable ext_example example_params (LaserOdometry_init example_params)"
    by (rule reachable.constructed)
  show "host_update (LaserOdometry_init example_params) cold_start_imu_example"
    by (simp add: host_update_def cold_start_imu_example_def cold_start_example_def
          install_sweep_def LaserOdometry_init_def)
qed

lemma cold_start_imu_example_gate: "hasNewData cold_start_imu_example"
  by (simp add: hasNewData_def cold_start_imu_example_def cold_start_example_def
        install_sweep_def LaserOdometry_init_def)

lemma cold_start_imu_example_not_inited: "\<not> systemInited cold_start_imu_example"
  by (simp add: cold_start_imu_example_def cold_start_example_def
        install_sweep_def LaserOdometry_init_def)

theorem cold_start_witness:
  "reachable ext_example example_params cold_start_imu_example \<and>
   hasNewData cold_start_imu_example \<and> \<not> systemInited cold_start_imu_example \<and>
   process ext_example cold_start_imu_example
     = Some (False, process_init (reset cold_start_imu_example)) \<and>
   lastCornerCloud (process_init (reset cold_start_imu_example)) = [xyzi 1 0 0 0, xyzi 2 0 0 1] \<and>
   transformSum (process_init (reset cold_start_imu_example))
     = \<lparr>rot_x = 1 / 10, rot_y = 0, rot_z = 1 / 5, pos = Vector3_zero\<rparr>"
proof -
  from cold_start[OF cold_start_imu_example_reachable cold_start_imu_example_gate
                     cold_start_imu_example_not_inited]
  obtain st' where
    p: "process ext_example cold_start_imu_example = Some (False, st')" and
    c: "lastCornerCloud st' = cornerPointsLessSharp cold_start_imu_example" and
    t: "transformSum st' = \<lparr>rot_x = imuPitchStart cold_start_imu_example, rot_y = 0,
                             rot_z = imuRollStart cold_start_imu_example, pos = Vector3_zero\<rparr>"
    by blast
  have q: "process ext_example cold_start_imu_example
             = Some (False, process_init (reset cold_start_imu_example))"
    using cold_start_imu_example_gate cold_start_imu_example_not_inited by (rule process_cold)
  from p q have e: "st' = process_init (reset cold_start_imu_example)" by simp
  have c': "cornerPointsLessSharp cold_start_imu_example = [xyzi 1 0 0 0, xyzi 2 0 0 1]"
    by (simp add: cold_start_imu_example_def cold_start_example_def install_sweep_def)
  have t': "imuPitchStart cold_start_imu_example = 1 / 10" "imuRollStart cold_start_imu_example = 1 / 5"
    by (simp_all add: cold_start_imu_example_def)
  show ?thesis
    using cold_start_imu_example_reachable cold_start_imu_example_gate
      cold_start_imu_example_not_inited q c t unfolding e c' t' by blast
qed

lemma transformToEnd_cong:
  assumes "transform a = transform b" "imuShiftFromStart a = imuShiftFromStart b"
    "imuRollStart a = imuRollStart b" "imuPitchStart a = imuPitchStart b"
    "imuYawStart a = imuYawStart b" "imuRollEnd a = imuRollEnd b"
    "imuPitchEnd a = imuPitchEnd b" "imuYawEnd a = imuYawEnd b"
  shows "transformToEnd a cloud = transformToEnd b cloud"
  unfolding transformToEnd_def transformToEnd_point_def using assms by simp

lemma transform_accumulate: "transform (accumulate_and_swap ext st) = transform st"
  by (simp add: accumulate_and_swap_def Let_def)

lemma solve_stage_sparse:
  "length (lastCornerCloud st) \<le> 10 \<or> length (lastSurfaceCloud st) \<le> 100
   \<Longrightarrow> solve_stage ext st = Some st"
  by (auto simp: solve_stage_def)

lemma lastClouds_pre_reset:
  "lastCornerCloud (pre_solve (reset st)) = lastCornerCloud st"
  "lastSurfaceCloud (pre_solve (reset st)) = lastSurfaceCloud st"
  by (simp_all add: pre_solve_def reset_def)

lemma second_sweep_example_tick:
  "process ext_example second_sweep_example
     = Some (True, accumulate_and_swap ext_example (pre_solve (reset second_sweep_example)))"
  by (simp add: process_tick[OF second_sweep_example_gate second_sweep_example_inited]
        second_sweep_example_unsolved)

lemma drift_example_gate: "hasNewData drift_example"
  using second_sweep_example_gate by (simp add: drift_example_def hasNewData_def)

lemma drift_example_inited: "systemInited drift_example"
  using second_sweep_example_inited by (simp add: drift_example_def)

lemma drift_example_tick:
  "process ext_example drift_example
     = Some (True, accumulate_and_swap ext_example (pre_solve (reset drift_example)))"
proof -
  have "length (lastCornerCloud drift_example) \<le> 10 \<or> length (lastSurfaceCloud drift_example) \<le> 100"
    by (simp add: drift_example_def second_sweep_example_def install_sweep_def process_init_def
          reset_def cold_start_example_def)
  then have "solve_stage ext_example (pre_solve (reset drift_example)) = Some (pre_solve (reset drift_example))"
    by (intro solve_stage_sparse) (simp add: lastClouds_pre_reset)
  then show ?thesis
    by (simp add: process_tick[OF drift_example_gate drift_example_inited])
qed

lemma third_sweep_example_gate: "hasNewData third_sweep_example"
  by (simp add: third_sweep_example_def install_sweep_def hasNewData_def)

lemma third_sweep_example_inited: "systemInited third_sweep_example"
  using drift_example_inited
  by (simp add: third_sweep_example_def install_sweep_def systemInited_accumulate
        systemInited_pre_solve systemInited_reset)

lemma third_sweep_example_transform:
  "transform third_sweep_example
     = \<lparr>rot_x = 0, rot_y = 0, rot_z = 0, pos = \<lparr>vx = - (1 / 10), vy = 0, vz = 0\<rparr>\<rparr>"
proof -
  have "transform third_sweep_example = transform (pre_solve (reset drift_example))"
    by (simp add: third_sweep_example_def install_sweep_def transform_accumulate)
  also have "\<dots> = \<lparr>rot_x = 0, rot_y = 0, rot_z = 0, pos = \<lparr>vx = - (1 / 10), vy = 0, vz = 0\<rparr>\<rparr>"
    by (simp add: pre_solve_def reset_def drift_example_def second_sweep_example_def
          install_sweep_def process_init_def cold_start_example_def LaserOdometry_init_def
          Twist_default_def Vector3_zero_def vsub_def vscale_def example_params_def)
  finally show ?thesis .
qed

lemma prior_accumulate:
  "imuVeloFromStart (accumulate_and_swap ext st) = imuVeloFromStart st"
  "params (accumulate_and_swap ext st) = params st"
  by (simp_all add: accumulate_and_swap_def Let_def)

lemma third_sweep_example_prior:
  "imuVeloFromStart third_sweep_example = \<lparr>vx = 1, vy = 0, vz = 0\<rparr>"
  "scanPeriod (params third_sweep_example) = 1 / 10"
  by (simp_all add: third_sweep_example_def install_sweep_def prior_accumulate
        pre_solve_def reset_def drift_example_def second_sweep_example_def
        process_init_def cold_start_example_def LaserOdometry_init_def example_params_def)

text \<open>
  Claim C3 as stated fails.  After one tick with IMU velocity \<open>(1, 0, 0)\<close> and scan period
  0.1 the incremental translation is \<open>(- 0.1, 0, 0)\<close>; on the next tick the transform
  before the solver loop has translation \<open>(- 0.2, 0, 0)\<close>, not the IMU prior
  \<open>(- 0.1, 0, 0)\<close>.
\<close>

theorem transform_reset_counterexample:
  "process ext_example drift_example
     = Some (True, accumulate_and_swap ext_example (pre_solve (reset drift_example))) \<and>
   third_sweep_example
     = install_sweep (accumulate_and_swap ext_example (pre_solve (reset drift_example))) 9
         [xyzi 1 0 0 0] [xyzi 4 0 0 0] [xyzi 0 1 0 0] [xyzi 0 4 0 0] [xyzi 1 1 1 0] \<and>
   hasNewData third_sweep_example \<and> systemInited third_sweep_example \<and>
   transform (pre_solve (reset third_sweep_example))
     \<noteq> \<lparr>rot_x = 0, rot_y = 0, rot_z = 0,
         pos = vscale (imuVeloFromStart third_sweep_example)
                 (- scanPeriod (params third_sweep_example))\<rparr>"
proof -
  have "pos (transform (pre_solve (reset third_sweep_example))) = \<lparr>vx = - (1 / 5), vy = 0, vz = 0\<rparr>"
    using third_sweep_example_transform third_sweep_example_prior
    by (simp add: pre_solve_def reset_def vsub_def vscale_def)
  moreover have "vscale (imuVeloFromStart third_sweep_example) (- scanPeriod (params third_sweep_example))
                   = \<lparr>vx = - (1 / 10), vy = 0, vz = 0\<rparr>"
    using third_sweep_example_prior by (simp add: vscale_def)
  ultimately have "vx (pos (transform (pre_solve (reset third_sweep_example))))
     \<noteq> vx (pos \<lparr>rot_x = 0, rot_y = 0, rot_z = 0,
         pos = vscale (imuVeloFromStart third_sweep_example)
                 (- scanPeriod (params third_sweep_example))\<rparr>)"
    by simp
  then have "transform (pre_solve (reset third_sweep_example))
     \<noteq> \<lparr>rot_x = 0, rot_y = 0, rot_z = 0,
         pos = vscale (imuVeloFromStart third_sweep_example)
                 (- scanPeriod (params third_sweep_example))\<rparr>"
    by (rule contrapos_nn) (erule arg_cong)
  with drift_example_tick third_sweep_example_gate third_sweep_example_inited
  show ?thesis unfolding third_sweep_example_def[symmetric] by (simp add: third_sweep_example_def)
qed

text \<open>
  Claim C3, amended.  On a non-initialization tick the solver stage starts from the
  incremental transform the previous tick left, with \<open>imuVeloFromStart * scanPeriod\<close>
  subtracted from its translation and its rotation unchanged; the stage after the solver
  does not write the incremental transform, so it is carried into the next tick.
\<close>

theorem incremental_transform_carried_over:
  assumes "hasNewData st" and "systemInited st"
  shows "process ext st
           = Option.bind (solve_stage ext (pre_solve (reset st)))
               (\<lambda>st2. Some (True, accumulate_and_swap ext st2)) \<and>
         pos (transform (pre_solve (reset st)))
           = vsub (pos (transform st)) (vscale (imuVeloFromStart st) (scanPeriod (params st))) \<and>
         rot_x (transform (pre_solve (reset st))) = rot_x (transform st) \<and>
         rot_y (transform (pre_solve (reset st))) = rot_y (transform st) \<and>
         rot_z (transform (pre_solve (reset st))) = rot_z (transform st) \<and>
         (\<forall>st2. transform (accumulate_and_swap ext st2) = transform st2)"
  using process_tick[OF assms, of ext]
  by (simp add: pre_solve_def reset_def transform_accumulate)

theorem incremental_transform_carried_over_witness:
  "hasNewData third_sweep_example \<and> systemInited third_sweep_example \<and>
   transform third_sweep_example
     = \<lparr>rot_x = 0, rot_y = 0, rot_z = 0, pos = \<lparr>vx = - (1 / 10), vy = 0, vz = 0\<rparr>\<rparr> \<and>
   pos (transform (pre_solve (reset third_sweep_example))) = \<lparr>vx = - (1 / 5), vy = 0, vz = 0\<rparr> \<and>
   rot_x (transform (pre_solve (reset third_sweep_example))) = 0"
proof -
  note c = incremental_transform_carried_over[OF third_sweep_example_gate third_sweep_example_inited,
             of ext_example]
  from c have "pos (transform (pre_solve (reset third_sweep_example)))
                 = vsub (pos (transform third_sweep_example))
                     (vscale (imuVeloFromStart third_sweep_example)
                        (scanPeriod (params third_sweep_example)))"
    by blast
  then have p: "pos (transform (pre_solve (reset third_sweep_example))) = \<lparr>vx = - (1 / 5), vy = 0, vz = 0\<rparr>"
    by (simp add: third_sweep_example_transform third_sweep_example_prior vsub_def vscale_def)
  from c have "rot_x (transform (pre_solve (reset third_sweep_example))) = rot_x (transform third_sweep_example)"
    by blast
  then have r: "rot_x (transform (pre_solve (reset third_sweep_example))) = 0"
    by (simp add: third_sweep_example_transform)
  from third_sweep_example_gate third_sweep_example_inited third_sweep_example_transform p r
  show ?thesis by blast
qed

lemma kdtree_frame:
  "solver_frame st st' \<Longrightarrow>
     lastCornerKDTree st' = lastCornerKDTree st \<and> lastSurfaceKDTree st' = lastSurfaceKDTree st \<and>
     cornerPointsLessSharp st' = cornerPointsLessSharp st \<and>
     surfPointsLessFlat st' = surfPointsLessFlat st"
  by (simp add: solver_frame_def)

lemma kdtree_accumulate:
  "lastCornerKDTree (accumulate_and_swap ext st) = lastCornerKDTree st"
  "lastSurfaceKDTree (accumulate_and_swap ext st) = lastSurfaceKDTree st"
  by (simp_all add: accumulate_and_swap_def Let_def)

lemma lastCornerCloud_accumulate:
  "lastCornerCloud (accumulate_and_swap ext st) = transformToEnd st (cornerPointsLessSharp st)"
proof -
  have "lastCornerCloud (accumulate_and_swap ext st)
          = transformToEnd (st\<lparr>transformSum := transformSum (accumulate_and_swap ext st)\<rparr>)
              (cornerPointsLessSharp st)"
    by (simp add: accumulate_and_swap_def Let_def)
  also have "\<dots> = transformToEnd st (cornerPointsLessSharp st)"
    by (rule transformToEnd_cong) simp_all
  finally show ?thesis .
qed

lemma lastSurfaceCloud_accumulate:
  "lastSurfaceCloud (accumulate_and_swap ext st) = transformToEnd st (surfPointsLessFlat st)"
proof -
  have "lastSurfaceCloud (accumulate_and_swap ext st)
          = transformToEnd (st\<lparr>transformSum := transformSum (accumulate_and_swap ext st),
                               cornerPointsLessSharp := lastCornerCloud (accumulate_and_swap ext st)\<rparr>)
              (surfPointsLessFlat st)"
    by (simp add: accumulate_and_swap_def Let_def)
  also have "\<dots> = transformToEnd st (surfPointsLessFlat st)"
    by (rule transformToEnd_cong) simp_all
  finally show ?thesis .
qed

text \<open>
  The decimation flag.  \<open>generateRegisteredCloud\<close> returns true, and de-skews the
  object's full-resolution cloud to the sweep end, exactly when \<open>ioRatio < 2\<close> or
  \<open>frameCount mod ioRatio = 1\<close>; otherwise it returns false and changes nothing.  With
  \<open>ioRatio = 3\<close> it returns true precisely at the frame counts 1, 4, 7, ...  The
  argument \<open>registered_cloud\<close> is handed back as it came.
\<close>

lemma decimation_flag:
  "generateRegisteredCloud st registered_cloud
     = (if ioRatio (params st) < 2 \<or> frameCount st mod ioRatio (params st) = 1
        then (True, st\<lparr>laserCloudFullRes := transformToEnd st (laserCloudFullRes st)\<rparr>, registered_cloud)
        else (False, st, registered_cloud)) \<and>
   (ioRatio (params st) = 3 \<longrightarrow>
      (fst (generateRegisteredCloud st registered_cloud) \<longleftrightarrow> (\<exists>k. frameCount st = 3 * k + 1)))"
proof (intro conjI impI)
  show "generateRegisteredCloud st registered_cloud
     = (if ioRatio (params st) < 2 \<or> frameCount st mod ioRatio (params st) = 1
        then (True, st\<lparr>laserCloudFullRes := transformToEnd st (laserCloudFullRes st)\<rparr>, registered_cloud)
        else (False, st, registered_cloud))"
    by (simp add: generateRegisteredCloud_def)
next
  assume r: "ioRatio (params st) = 3"
  have "frameCount st mod 3 = 1 \<longleftrightarrow> (\<exists>k. frameCount st = 3 * k + 1)"
    by presburger
  then show "fst (generateRegisteredCloud st registered_cloud) \<longleftrightarrow> (\<exists>k. frameCount st = 3 * k + 1)"
    by (simp add: generateRegisteredCloud_def r)
qed

lemma decimation_example_fields:
  "ioRatio (params (decimation_example n)) = 3" "frameCount (decimation_example n) = n"
  by (simp_all add: decimation_example_def LaserOdometry_init_def)

lemma decimation_flag_example:
  "ioRatio (params (decimation_example 4)) = 3 \<and>
   fst (generateRegisteredCloud (decimation_example 1) []) \<and>
   \<not> fst (generateRegisteredCloud (decimation_example 2) []) \<and>
   \<not> fst (generateRegisteredCloud (decimation_example 3) []) \<and>
   fst (generateRegisteredCloud (decimation_example 4) []) \<and>
   laserCloudFullRes (fst (snd (generateRegisteredCloud (decimation_example 4) []))) = [xyzi 1 2 3 0]"
proof -
  have k: "fst (generateRegisteredCloud (decimation_example n) []) \<longleftrightarrow> (\<exists>k. n = 3 * k + 1)" for n
  proof -
    have "ioRatio (params (decimation_example n)) = 3 \<longrightarrow>
            (fst (generateRegisteredCloud (decimation_example n) [])
               \<longleftrightarrow> (\<exists>k. frameCount (decimation_example n) = 3 * k + 1))"
      using decimation_flag[of "decimation_example n" "[]"] by (rule conjunct2)
    then show ?thesis unfolding decimation_example_fields by blast
  qed
  have a: "fst (generateRegisteredCloud (decimation_example 1) [])" unfolding k by presburger
  have b: "\<not> fst (generateRegisteredCloud (decimation_example 2) [])" unfolding k by presburger
  have c: "\<not> fst (generateRegisteredCloud (decimation_example 3) [])" unfolding k by presburger
  have d: "fst (generateRegisteredCloud (decimation_example 4) [])" unfolding k by presburger
  have e: "laserCloudFullRes (fst (snd (generateRegisteredCloud (decimation_example 4) []))) = [xyzi 1 2 3 0]"
    by (simp add: generateRegisteredCloud_def decimation_example_def LaserOdometry_init_def
          transformToEnd_def transformToEnd_point_def xyzi_def Twist_default_def Vector3_zero_def
          int_of_float_def rotateZXY_point_def rotateYXZ_point_def rotateZXY_def rotateYXZ_def
          rotX_def rotY_def rotZ_def example_params_def)
  from decimation_example_fields(1) a b c d e show ?thesis by blast
qed

text \<open>
  Claim C10 as stated fails.  For the identity rotation and the zero translation the
  line appended to a file that opens is \<open>1 0 0 0 0 1 0 0 0 0 1 0\<close>, not the nine rotation
  entries followed by the three translation entries, \<open>1 0 0 0 1 0 0 0 1 0 0 0\<close>.
\<close>

theorem savePoseToFile_counterexample:
  "openable example_files ''poses.txt'' \<and>
   files (savePoseToFile fmt_bit Matrix3d_identity Vector3d_zero ''poses.txt'' example_files)
       ''poses.txt''
     = Some (''first'' @ [CHR 0x0A] @ ''1 0 0 0 0 1 0 0 0 0 1 0'' @ [CHR 0x0A]) \<and>
   nine_then_three fmt_bit Matrix3d_identity Vector3d_zero
     = ''1 0 0 0 1 0 0 0 1 0 0 0'' @ [CHR 0x0A] \<and>
   files (savePoseToFile fmt_bit Matrix3d_identity Vector3d_zero ''poses.txt'' example_files)
       ''poses.txt''
     \<noteq> Some (''first'' @ [CHR 0x0A] @ nine_then_three fmt_bit Matrix3d_identity Vector3d_zero)"
  by (simp add: savePoseToFile_def pose_line_def nine_then_three_def fmt_bit_def
        Matrix3d_identity_def Vector3d_zero_def example_files_def)

text \<open>
  Claim C10, amended.  When the named file can be opened for appending, the line appended
  to it is the 3 by 4 matrix \<open>[R | t]\<close> in row-major order: for each row, its three
  rotation entries followed by its translation entry; twelve entries separated by single
  spaces and ended by a newline.  The earlier content of the file is kept and no other
  file changes.  When the file cannot be opened, nothing is written.
\<close>

theorem savePoseToFile_row_major:
  "(openable fs filename \<longrightarrow>
      files (savePoseToFile fmt rot tr filename fs) filename
        = Some ((case files fs filename of None \<Rightarrow> [] | Some old \<Rightarrow> old)
                @ row_major_3x4 fmt rot tr) \<and>
      (\<forall>other. other \<noteq> filename \<longrightarrow>
         files (savePoseToFile fmt rot tr filename fs) other = files fs other) \<and>
      openable (savePoseToFile fmt rot tr filename fs) = openable fs) \<and>
   (\<not> openable fs filename \<longrightarrow> savePoseToFile fmt rot tr filename fs = fs)"
  by (simp add: savePoseToFile_def pose_line_def row_major_3x4_def)

lemma example_files_facts:
  "openable example_files ''poses.txt''" "openable example_files ''new.txt''"
  "\<not> openable example_files ''logs/poses.txt''"
  "files example_files ''poses.txt'' = Some (''first'' @ [CHR 0x0A])"
  "files example_files ''new.txt'' = None"
  "files example_files ''other.txt'' = Some ''kept''"
  by (simp_all add: example_files_def)

theorem savePoseToFile_row_major_witness:
  "openable example_files ''poses.txt'' \<and>
   files (savePoseToFile fmt_bit Matrix3d_identity Vector3d_zero ''poses.txt'' example_files)
       ''poses.txt''
     = Some (''first'' @ [CHR 0x0A] @ ''1 0 0 0 0 1 0 0 0 0 1 0'' @ [CHR 0x0A]) \<and>
   files (savePoseToFile fmt_bit Matrix3d_identity Vector3d_zero ''poses.txt'' example_files)
       ''other.txt'' = Some ''kept'' \<and>
   openable example_files ''new.txt'' \<and>
   files (savePoseToFile fmt_bit Matrix3d_identity Vector3d_zero ''new.txt'' example_files)
       ''new.txt''
     = Some (''1 0 0 0 0 1 0 0 0 0 1 0'' @ [CHR 0x0A]) \<and>
   \<not> openable example_files ''logs/poses.txt'' \<and>
   savePoseToFile fmt_bit Matrix3d_identity Vector3d_zero ''logs/poses.txt'' example_files
     = example_files"
proof -
  have r: "row_major_3x4 fmt_bit Matrix3d_identity Vector3d_zero
             = ''1 0 0 0 0 1 0 0 0 0 1 0'' @ [CHR 0x0A]"
    by (simp add: row_major_3x4_def fmt_bit_def Matrix3d_identity_def Vector3d_zero_def)
  note a = savePoseToFile_row_major[of example_files "''poses.txt''" fmt_bit Matrix3d_identity
             Vector3d_zero]
  note b = savePoseToFile_row_major[of example_files "''new.txt''" fmt_bit Matrix3d_identity
             Vector3d_zero]
  note c = savePoseToFile_row_major[of example_files "''logs/poses.txt''" fmt_bit
             Matrix3d_identity Vector3d_zero]
  have a1: "files (savePoseToFile fmt_bit Matrix3d_identity Vector3d_zero ''poses.txt'' example_files)
       ''poses.txt''
     = Some (''first'' @ [CHR 0x0A] @ ''1 0 0 0 0 1 0 0 0 0 1 0'' @ [CHR 0x0A])"
    using a example_files_facts(1) by (simp add: example_files_facts(4) r)
  have o: "''other.txt'' \<noteq> ''poses.txt''" by simp
  have a2: "files (savePoseToFile fmt_bit Matrix3d_identity Vector3d_zero ''poses.txt'' example_files)
       ''other.txt'' = Some ''kept''"
    using a example_files_facts(1) o example_files_facts(6) by metis
  have b1: "files (savePoseToFile fmt_bit Matrix3d_identity Vector3d_zero ''new.txt'' example_files)
       ''new.txt''
     = Some (''1 0 0 0 0 1 0 0 0 0 1 0'' @ [CHR 0x0A])"
    using b example_files_facts(2) by (simp add: example_files_facts(5) r)
  have c1: "savePoseToFile fmt_bit Matrix3d_identity Vector3d_zero ''logs/poses.txt'' example_files
     = example_files"
    using c example_files_facts(3) by blast
  from example_files_facts(1,2,3) a1 a2 b1 c1 show ?thesis by blast
qed

lemma degeneracy_scan_True: "snd (degeneracy_scan matE n (matV2, True))"
  by (induction n arbitrary: matV2) simp_all

text \<open>
  Claim C1 fails on the code.  Eigen's solver yields the eigenvalues in ascending order,
  and the scan (lines 695 to 704) runs from index 5 down: it starts at the largest
  eigenvalue and stops at the first one that is at least 10.  So the analysis reports
  degeneracy exactly when the largest eigenvalue is below 10, and otherwise zeroes
  nothing: \<open>V'\<close> is \<open>V\<close> and the projector is \<open>V\<^sup>-\<^sup>1 V\<close>, whatever the smaller eigenvalues
  are.
\<close>

theorem degeneracy_scan_from_largest:
  "(fst (projector inverse_of matE matV) \<longleftrightarrow> matE ! 5 < 10) \<and>
   (10 \<le> matE ! 5 \<longrightarrow> snd (projector inverse_of matE matV) = mat_mul (inverse_of matV) matV)"
proof -
  have six: "(6::nat) = Suc 5" by simp
  have thr: "eignThre ! 5 = 10" by (simp add: eignThre_def)
  show ?thesis
  proof (cases "matE ! 5 < 10")
    case True
    then have "degeneracy_scan matE (Suc 5) (matV, False)
                 = degeneracy_scan matE 5 (zero_row matV 5, True)"
      by (simp only: degeneracy_scan.simps thr if_True)
    then have "degeneracy_scan matE 6 (matV, False) = degeneracy_scan matE 5 (zero_row matV 5, True)"
      by (simp only: six)
    then have "snd (degeneracy_scan matE 6 (matV, False))"
      by (simp add: degeneracy_scan_True)
    with True show ?thesis
      by (cases "degeneracy_scan matE 6 (matV, False)") (simp add: projector_def)
  next
    case False
    then have "degeneracy_scan matE (Suc 5) (matV, False) = (matV, False)"
      by (simp only: degeneracy_scan.simps thr if_False)
    then have "degeneracy_scan matE 6 (matV, False) = (matV, False)"
      by (simp only: six)
    with False show ?thesis by (simp add: projector_def)
  qed
qed

lemma mat_mul_rotated6: "mat_mul (transpose rotated6) rotated6 = identity6"
  by (simp add: mat_mul_def rotated6_def identity6_def)

lemma weak_direction_eigen:
  "mat_mul weak_direction_AtA rotated6
     = mat_mul rotated6 [[1, 0, 0, 0, 0, 0],
                         [0, 20, 0, 0, 0, 0],
                         [0, 0, 20, 0, 0, 0],
                         [0, 0, 0, 20, 0, 0],
                         [0, 0, 0, 0, 20, 0],
                         [0, 0, 0, 0, 0, 20]]"
  by (simp add: mat_mul_def rotated6_def weak_direction_AtA_def)

theorem degeneracy_scan_from_largest_witness:
  "mat_vec weak_direction_AtA [3 / 5, 4 / 5, 0, 0, 0, 0] = [3 / 5, 4 / 5, 0, 0, 0, 0] \<and>
   (10::real) \<le> [1, 20, 20, 20, 20, 20] ! 5 \<and>
   projector transpose [1, 20, 20, 20, 20, 20] rotated6 = (False, identity6) \<and>
   mat_vec identity6 [3 / 5, 4 / 5, 0, 0, 0, 0] = [3 / 5, 4 / 5, 0, 0, 0, 0]"
proof -
  have h: "(10::real) \<le> [1, 20, 20, 20, 20, 20] ! 5" by simp
  from degeneracy_scan_from_largest[of transpose "[1, 20, 20, 20, 20, 20]" rotated6] h
  have "\<not> fst (projector transpose [1, 20, 20, 20, 20, 20] rotated6)"
       "snd (projector transpose [1, 20, 20, 20, 20, 20] rotated6) = mat_mul (transpose rotated6) rotated6"
    by auto
  then have "projector transpose [1, 20, 20, 20, 20, 20] rotated6 = (False, identity6)"
    by (simp add: mat_mul_rotated6 prod_eq_iff)
  moreover have "mat_vec identity6 [3 / 5, 4 / 5, 0, 0, 0, 0] = [3 / 5, 4 / 5, 0, 0, 0, 0]"
    by (simp add: mat_vec_def identity6_def)
  moreover have "mat_vec weak_direction_AtA [3 / 5, 4 / 5, 0, 0, 0, 0] = [3 / 5, 4 / 5, 0, 0, 0, 0]"
    by (simp add: mat_vec_def weak_direction_AtA_def)
  ultimately show ?thesis using h by simp
qed

lemma calcSquaredDiff_nonneg: "0 \<le> calcSquaredDiff a b"
  by (simp add: calcSquaredDiff_def)

lemma nearest_scan_exact: "snd best \<le> 0 \<Longrightarrow> nearest_scan q ps k best = best"
proof (induction ps arbitrary: k)
  case Nil
  show ?case by simp
next
  case (Cons p ps)
  have "\<not> calcSquaredDiff p q < snd best"
    using Cons.prems calcSquaredDiff_nonneg[of p q] by linarith
  with Cons show ?case by simp
qed

lemma ring0_line_Cons: "0 < n \<Longrightarrow> ring0_line n = xyzi 0 0 0 0 # map (\<lambda>k. xyzi (real k) 0 0 0) [1..<n]"
  by (simp add: ring0_line_def upt_conv_Cons)

lemma ring0_column_Cons: "0 < n \<Longrightarrow> ring0_column n = xyzi 0 0 0 0 # map (\<lambda>k. xyzi 0 (real k) 0 0) [1..<n]"
  by (simp add: ring0_column_def upt_conv_Cons)

lemma linear_nearest_line:
  "0 < n \<Longrightarrow> linear_nearest (Some (ring0_line n)) PointXYZI_default = (0, 0)"
  by (simp add: ring0_line_Cons linear_nearest_def nearest_scan_exact calcSquaredDiff_def
        xyzi_def PointXYZI_default_def)

lemma linear_nearest_column:
  "0 < n \<Longrightarrow> linear_nearest (Some (ring0_column n)) PointXYZI_default = (0, 0)"
  by (simp add: ring0_column_Cons linear_nearest_def nearest_scan_exact calcSquaredDiff_def
        xyzi_def PointXYZI_default_def)

lemma length_ring0 [simp]: "length (ring0_line n) = n" "length (ring0_column n) = n"
  by (simp_all add: ring0_line_def ring0_column_def)

lemma ring0_line_nth: "k < n \<Longrightarrow> ring0_line n ! k = xyzi (real k) 0 0 0"
  by (simp add: ring0_line_def)

lemma ring0_column_nth: "k < n \<Longrightarrow> ring0_column n ! k = xyzi 0 (real k) 0 0"
  by (simp add: ring0_column_def)

lemma corner_forward_overrun:
  assumes "length cloud < n" and "j \<le> length cloud"
    and "\<forall>k<length cloud. real_of_int (int_of_float (intensity (cloud ! k))) \<le> real_of_int scan + 2.5"
  shows "corner_forward cloud sel scan n j acc = None"
  using assms(2)
proof (induction "length cloud - j" arbitrary: j acc)
  case 0
  then have j: "j = length cloud" by simp
  obtain d i where acc: "acc = (d, i)" by (cases acc)
  have c: "cloud_at cloud (int j) = None" by (simp add: cloud_at_def j)
  have jn: "j < n" using assms(1) j by simp
  show ?case
    unfolding acc
    by (subst corner_forward.simps) (simp only: jn c if_True option.case)
next
  case (Suc m)
  then have j: "j < length cloud" by simp
  obtain d i where acc: "acc = (d, i)" by (cases acc)
  have c: "cloud_at cloud (int j) = Some (cloud ! j)" using j by (simp add: cloud_at_def)
  have w: "\<not> real_of_int (int_of_float (intensity (cloud ! j))) > real_of_int scan + 2.5"
    using assms(3) j by (simp add: not_less)
  have m: "m = length cloud - Suc j" using Suc.hyps(2) by simp
  have s: "Suc j \<le> length cloud" using j by simp
  have jn: "j < n" using j assms(1) by simp
  show ?case
    unfolding acc
    by (subst corner_forward.simps) (simp only: jn c w if_True if_False option.case Suc.hyps(1)[OF m s])
qed

lemma surf_forward_overrun:
  assumes "length cloud < n" and "j \<le> length cloud"
    and "\<forall>k<length cloud. real_of_int (int_of_float (intensity (cloud ! k))) \<le> real_of_int scan + 2.5"
  shows "surf_forward cloud sel scan n j acc = None"
  using assms(2)
proof (induction "length cloud - j" arbitrary: j acc)
  case 0
  then have j: "j = length cloud" by simp
  obtain a b where acc: "acc = (a, b)" by (cases acc)
  have c: "cloud_at cloud (int j) = None" by (simp add: cloud_at_def j)
  have jn: "j < n" using assms(1) j by simp
  show ?case
    unfolding acc
    by (subst surf_forward.simps) (simp only: jn c if_True option.case)
next
  case (Suc m)
  then have j: "j < length cloud" by simp
  obtain a b where acc: "acc = (a, b)" by (cases acc)
  have c: "cloud_at cloud (int j) = Some (cloud ! j)" using j by (simp add: cloud_at_def)
  have w: "\<not> real_of_int (int_of_float (intensity (cloud ! j))) > real_of_int scan + 2.5"
    using assms(3) j by (simp add: not_less)
  have m: "m = length cloud - Suc j" using Suc.hyps(2) by simp
  have s: "Suc j \<le> length cloud" using j by simp
  have jn: "j < n" using j assms(1) by simp
  show ?case
    unfolding acc
    by (subst surf_forward.simps) (simp only: jn c w if_True if_False option.case Suc.hyps(1)[OF m s])
qed

lemma ring0_line_in_window:
  "\<forall>k<length (ring0_line n). real_of_int (int_of_float (intensity (ring0_line n ! k))) \<le> real_of_int 0 + 2.5"
  by (simp add: ring0_line_nth xyzi_def int_of_float_def)

lemma corner_search_overrun:
  assumes "lastCornerKDTree st = Some (ring0_line 11)" and "lastCornerCloud st = ring0_line 11"
  shows "corner_search ext_example st 12 PointXYZI_default = None"
proof -
  have n: "nearestKSearch ext_example (lastCornerKDTree st) PointXYZI_default = (0, 0)"
    by (simp add: ext_example_def assms(1) linear_nearest_line)
  have c: "cloud_at (ring0_line 11) 0 = Some (xyzi 0 0 0 0)"
    by (simp add: cloud_at_def ring0_line_nth)
  have r: "int_of_float (intensity (xyzi 0 0 0 0)) = 0"
    by (simp add: xyzi_def int_of_float_def)
  have f: "corner_forward (ring0_line 11) PointXYZI_default 0 12 (Suc 0) (25, - 1) = None"
    by (rule corner_forward_overrun[OF _ _ ring0_line_in_window]) simp_all
  show ?thesis
    unfolding corner_search_def n by (simp add: c r f assms(2))
qed

lemma corner_point_overrun:
  assumes "lastCornerKDTree st = Some (ring0_line 11)" and "lastCornerCloud st = ring0_line 11"
    and "length (cornerPointsSharp st) = 12"
  shows "corner_point ext_example 0 i st = None"
proof -
  let ?st0 = "st\<lparr>lastCornerCloud := removeNaNFromPointCloud (lastCornerCloud st)\<rparr>"
  have "corner_search ext_example ?st0 12 PointXYZI_default = None"
    by (rule corner_search_overrun) (simp_all add: assms removeNaN_id)
  then show ?thesis
    unfolding corner_point_def Let_def pointSel_of_def by (simp add: assms(3))
qed

lemma solver_iteration_overrun:
  assumes "lastCornerKDTree st = Some (ring0_line 11)" and "lastCornerCloud st = ring0_line 11"
    and "length (cornerPointsSharp st) = 12"
  shows "solver_iteration ext_example 0 st d P = None"
proof -
  let ?st0 = "st\<lparr>laserCloudOri := [], coeffSel := []\<rparr>"
  have "corner_point ext_example 0 0 ?st0 = None"
    by (rule corner_point_overrun) (simp_all add: assms)
  then have "for_each [0..<length (cornerPointsSharp ?st0)] (corner_point ext_example 0) ?st0 = None"
    by (simp add: assms(3) upt_conv_Cons)
  then show ?thesis
    unfolding solver_iteration_def Let_def by simp
qed

lemma overrun_example_fields:
  "lastCornerKDTree overrun_example = Some (ring0_line 11)"
  "lastCornerCloud overrun_example = ring0_line 11"
  "lastSurfaceCloud overrun_example = ring0_column 101"
  "cornerPointsSharp overrun_example = ring0_line 12"
  "maxIterations (params overrun_example) = 1"
  "systemInited overrun_example"
  by (simp_all add: overrun_example_def install_sweep_def process_init_def reset_def
        dense_first_sweep_def LaserOdometry_init_def)

lemma overrun_example_gate: "hasNewData overrun_example"
  by (simp add: overrun_example_def install_sweep_def hasNewData_def)

lemma dense_first_sweep_tick:
  "process ext_example dense_first_sweep = Some (False, process_init (reset dense_first_sweep))"
  by (rule process_cold)
     (simp_all add: dense_first_sweep_def install_sweep_def hasNewData_def LaserOdometry_init_def)

lemma solver_overrun:
  "solver ext_example (pre_solve (reset overrun_example)) = None"
proof -
  let ?st1 = "(pre_solve (reset overrun_example))\<lparr>cornerPointsSharp :=
                removeNaNFromPointCloud (cornerPointsSharp (pre_solve (reset overrun_example)))\<rparr>"
  let ?st2 = "?st1\<lparr>pointSearchCornerInd1 := resize (pointSearchCornerInd1 ?st1) (length (cornerPointsSharp ?st1)),
                    pointSearchCornerInd2 := resize (pointSearchCornerInd2 ?st1) (length (cornerPointsSharp ?st1)),
                    pointSearchSurfInd1 := resize (pointSearchSurfInd1 ?st1) (length (surfPointsFlat ?st1)),
                    pointSearchSurfInd2 := resize (pointSearchSurfInd2 ?st1) (length (surfPointsFlat ?st1)),
                    pointSearchSurfInd3 := resize (pointSearchSurfInd3 ?st1) (length (surfPointsFlat ?st1))\<rparr>"
  have i: "solver_iteration ext_example 0 ?st2 False [] = None"
    by (rule solver_iteration_overrun)
       (simp_all add: pre_solve_def reset_def removeNaN_id overrun_example_fields)
  have m: "maxIterations (params ?st2) = 1"
    by (simp add: pre_solve_def reset_def overrun_example_fields)
  have "solver_loop ext_example (maxIterations (params ?st2)) 0 (?st2, False, []) = None"
    unfolding m by (subst solver_loop.simps) (simp only: zero_less_one if_True i option.case)
  then show ?thesis unfolding solver_def Let_def .
qed

text \<open>
  Claim C7 fails on the code.  The forward scans are bounded by the size of the current
  query cloud (\<open>cornerPointsSharpNum\<close>, \<open>surfPointsFlatNum\<close>), not by the size of the
  previous-sweep cloud they read.  After an initialization tick with 11 less-sharp points
  on one ring, a sweep with 12 sharp points makes the corner scan read index 11 of the
  11-point cloud: the read is out of range, and \<open>process\<close> has no result.
\<close>

theorem forward_scan_overrun:
  "process ext_example dense_first_sweep = Some (False, process_init (reset dense_first_sweep)) \<and>
   overrun_example
     = install_sweep (process_init (reset dense_first_sweep)) 2
         (ring0_line 12) (ring0_line 11) [xyzi 0 1 0 0] (ring0_column 101) [] \<and>
   length (lastCornerCloud overrun_example) = 11 \<and>
   length (cornerPointsSharp overrun_example) = 12 \<and>
   corner_forward (lastCornerCloud overrun_example) PointXYZI_default 0
     (length (cornerPointsSharp overrun_example)) 1 (25, - 1) = None \<and>
   process ext_example overrun_example = None"
proof -
  have f: "corner_forward (lastCornerCloud overrun_example) PointXYZI_default 0
     (length (cornerPointsSharp overrun_example)) 1 (25, - 1) = None"
    unfolding overrun_example_fields
    by (rule corner_forward_overrun[OF _ _ ring0_line_in_window]) simp_all
  have l: "length (lastCornerCloud (pre_solve (reset overrun_example))) > 10
             \<and> length (lastSurfaceCloud (pre_solve (reset overrun_example))) > 100"
    by (simp add: lastClouds_pre_reset overrun_example_fields)
  have "solve_stage ext_example (pre_solve (reset overrun_example)) = None"
    unfolding solve_stage_def by (simp only: l simp_thms if_True solver_overrun)
  then have p: "process ext_example overrun_example = None"
    by (simp add: process_tick[OF overrun_example_gate overrun_example_fields(6)])
  from dense_first_sweep_tick f p show ?thesis
    by (simp add: overrun_example_fields) (simp add: overrun_example_def)
qed

lemma far_query_example_fields:
  "lastCornerKDTree far_query_example = Some (ring0_line 11)"
  "lastCornerCloud far_query_example = ring0_line 11"
  "lastSurfaceKDTree far_query_example = Some (ring0_column 101)"
  "lastSurfaceCloud far_query_example = ring0_column 101"
  "cornerPointsSharp far_query_example = [xyzi 100 0 0 0]"
  "surfPointsFlat far_query_example = [xyzi 0 100 0 0]"
  "maxIterations (params far_query_example) = 1"
  "systemInited far_query_example"
  "pointSearchCornerInd1 far_query_example = []"
  "pointSearchCornerInd2 far_query_example = []"
  "pointSearchSurfInd1 far_query_example = []"
  "pointSearchSurfInd2 far_query_example = []"
  "pointSearchSurfInd3 far_query_example = []"
  "transform far_query_example = Twist_default"
  by (simp_all add: far_query_example_def install_sweep_def process_init_def reset_def
        dense_first_sweep_def LaserOdometry_init_def)

lemma far_query_example_gate: "hasNewData far_query_example"
  by (simp add: far_query_example_def install_sweep_def hasNewData_def)

lemma ring0_column_in_window:
  "cloud_at (ring0_column 101) 0 = Some (xyzi 0 0 0 0)"
  by (simp add: cloud_at_def ring0_column_nth)

lemma corner_search_far:
  assumes "lastCornerKDTree st = Some (ring0_line 11)" and "lastCornerCloud st = ring0_line 11"
  shows "corner_search ext_example st (Suc 0) PointXYZI_default = Some (0, - 1)"
proof -
  have n: "nearestKSearch ext_example (lastCornerKDTree st) PointXYZI_default = (0, 0)"
    by (simp add: ext_example_def assms(1) linear_nearest_line)
  have c: "cloud_at (ring0_line 11) 0 = Some (xyzi 0 0 0 0)"
    by (simp add: cloud_at_def ring0_line_nth)
  have f: "corner_forward (ring0_line 11) PointXYZI_default k (Suc 0) (Suc 0) (25, - 1) = Some (25, - 1)" for k
    by (subst corner_forward.simps) simp
  have b: "corner_backward (ring0_line 11) PointXYZI_default k (- 1) (25, - 1) = Some (25, - 1)" for k
    by (subst corner_backward.simps) simp
  show ?thesis
    unfolding corner_search_def n by (simp add: c f b assms(2))
qed

lemma surf_search_far:
  assumes "lastSurfaceKDTree st = Some (ring0_column 101)" and "lastSurfaceCloud st = ring0_column 101"
  shows "surf_search ext_example st (Suc 0) PointXYZI_default = Some (0, - 1, - 1)"
proof -
  have n: "nearestKSearch ext_example (lastSurfaceKDTree st) PointXYZI_default = (0, 0)"
    by (simp add: ext_example_def assms(1) linear_nearest_column)
  have f: "surf_forward (ring0_column 101) PointXYZI_default k (Suc 0) (Suc 0) ((25, - 1), (25, - 1))
             = Some ((25, - 1), (25, - 1))" for k
    by (subst surf_forward.simps) simp
  have b: "surf_backward (ring0_column 101) PointXYZI_default k (- 1) ((25, - 1), (25, - 1))
             = Some ((25, - 1), (25, - 1))" for k
    by (subst surf_backward.simps) simp
  show ?thesis
    unfolding surf_search_def n by (simp add: ring0_column_in_window f b assms(2))
qed

lemma corner_point_far:
  assumes "lastCornerKDTree st = Some (ring0_line 11)" and "lastCornerCloud st = ring0_line 11"
    and "length (cornerPointsSharp st) = 1"
    and "pointSearchCornerInd1 st = [0]" and "pointSearchCornerInd2 st = [0]"
  shows "corner_point ext_example 0 0 st
           = Some (st\<lparr>pointSearchCornerInd1 := [0], pointSearchCornerInd2 := [- 1]\<rparr>)"
proof -
  let ?st0 = "st\<lparr>lastCornerCloud := removeNaNFromPointCloud (lastCornerCloud st)\<rparr>"
  have e: "?st0 = st" by (simp add: removeNaN_id)
  have s: "corner_search ext_example st (Suc 0) PointXYZI_default = Some (0, - 1)"
    using assms(1,2) by (rule corner_search_far)
  show ?thesis
    unfolding corner_point_def Let_def pointSel_of_def e
    by (simp add: assms(3,4,5) s)
qed

lemma surf_point_far:
  assumes "lastSurfaceKDTree st = Some (ring0_column 101)" and "lastSurfaceCloud st = ring0_column 101"
    and "length (surfPointsFlat st) = 1"
    and "pointSearchSurfInd1 st = [0]" and "pointSearchSurfInd2 st = [0]"
    and "pointSearchSurfInd3 st = [0]"
  shows "surf_point ext_example 0 0 st
           = Some (st\<lparr>pointSearchSurfInd1 := [0], pointSearchSurfInd2 := [- 1],
                      pointSearchSurfInd3 := [- 1]\<rparr>)"
proof -
  have s: "surf_search ext_example st (Suc 0) PointXYZI_default = Some (0, - 1, - 1)"
    using assms(1,2) by (rule surf_search_far)
  show ?thesis
    unfolding surf_point_def Let_def pointSel_of_def
    by (simp add: assms(3,4,5,6) s)
qed

lemma solver_iteration_far:
  assumes "lastCornerKDTree st = Some (ring0_line 11)" and "lastCornerCloud st = ring0_line 11"
    and "lastSurfaceKDTree st = Some (ring0_column 101)" and "lastSurfaceCloud st = ring0_column 101"
    and "length (cornerPointsSharp st) = 1" and "length (surfPointsFlat st) = 1"
    and "pointSearchCornerInd1 st = [0]" and "pointSearchCornerInd2 st = [0]"
    and "pointSearchSurfInd1 st = [0]" and "pointSearchSurfInd2 st = [0]"
    and "pointSearchSurfInd3 st = [0]"
  shows "solver_iteration ext_example 0 st d P
           = Some (st\<lparr>laserCloudOri := [], coeffSel := [],
                      pointSearchCornerInd1 := [0], pointSearchCornerInd2 := [- 1],
                      pointSearchSurfInd1 := [0], pointSearchSurfInd2 := [- 1],
                      pointSearchSurfInd3 := [- 1]\<rparr>, d, P, False)"
proof -
  let ?st0 = "st\<lparr>laserCloudOri := [], coeffSel := []\<rparr>"
  let ?st1 = "?st0\<lparr>pointSearchCornerInd1 := [0], pointSearchCornerInd2 := [- 1]\<rparr>"
  let ?st2 = "?st1\<lparr>pointSearchSurfInd1 := [0], pointSearchSurfInd2 := [- 1],
                    pointSearchSurfInd3 := [- 1]\<rparr>"
  have c: "corner_point ext_example 0 0 ?st0 = Some ?st1"
    by (rule corner_point_far) (simp_all add: assms)
  have s: "surf_point ext_example 0 0 ?st1 = Some ?st2"
    by (rule surf_point_far) (simp_all add: assms)
  have l0: "[0..<length (cornerPointsSharp ?st0)] = [0]" by (simp add: assms)
  have l1: "[0..<length (surfPointsFlat ?st1)] = [0]" by (simp add: assms)
  have f0: "for_each [0..<length (cornerPointsSharp ?st0)] (corner_point ext_example 0) ?st0 = Some ?st1"
    unfolding l0 by (simp add: c)
  have f1: "for_each [0..<length (surfPointsFlat ?st1)] (surf_point ext_example 0) ?st1 = Some ?st2"
    unfolding l1 by (simp add: s)
  have n: "length (laserCloudOri ?st2) < 10" by simp
  have "solver_iteration ext_example 0 st d P = Some (?st2, d, P, False)"
    unfolding solver_iteration_def Let_def f0 by (simp only: bind.bind_lunit f1 n if_True)
  then show ?thesis by simp
qed

lemma solver_far:
  "map_option (\<lambda>st. (pointSearchCornerInd1 st, pointSearchSurfInd1 st))
     (solver ext_example (pre_solve (reset far_query_example))) = Some ([0], [0])"
proof -
  let ?st1 = "(pre_solve (reset far_query_example))\<lparr>cornerPointsSharp :=
                removeNaNFromPointCloud (cornerPointsSharp (pre_solve (reset far_query_example)))\<rparr>"
  let ?st2 = "?st1\<lparr>pointSearchCornerInd1 := resize (pointSearchCornerInd1 ?st1) (length (cornerPointsSharp ?st1)),
                    pointSearchCornerInd2 := resize (pointSearchCornerInd2 ?st1) (length (cornerPointsSharp ?st1)),
                    pointSearchSurfInd1 := resize (pointSearchSurfInd1 ?st1) (length (surfPointsFlat ?st1)),
                    pointSearchSurfInd2 := resize (pointSearchSurfInd2 ?st1) (length (surfPointsFlat ?st1)),
                    pointSearchSurfInd3 := resize (pointSearchSurfInd3 ?st1) (length (surfPointsFlat ?st1))\<rparr>"
  let ?st3 = "?st2\<lparr>laserCloudOri := [], coeffSel := [],
                    pointSearchCornerInd1 := [0], pointSearchCornerInd2 := [- 1],
                    pointSearchSurfInd1 := [0], pointSearchSurfInd2 := [- 1],
                    pointSearchSurfInd3 := [- 1]\<rparr>"
  have i: "solver_iteration ext_example 0 ?st2 False [] = Some (?st3, False, [], False)"
    by (rule solver_iteration_far)
       (simp_all add: pre_solve_def reset_def removeNaN_id resize_def far_query_example_fields)
  have m: "maxIterations (params ?st2) = 1"
    by (simp add: pre_solve_def reset_def far_query_example_fields)
  have e: "solver_loop ext_example 1 1 (?st3, False, []) = Some ?st3"
    by (subst solver_loop.simps) (simp only: less_irrefl if_False)
  have "solver_loop ext_example (maxIterations (params ?st2)) 0 (?st2, False, []) = Some ?st3"
    unfolding m
    by (subst solver_loop.simps)
       (simp only: zero_less_one if_True i option.case prod.case if_False One_nat_def[symmetric] e)
  then have "solver ext_example (pre_solve (reset far_query_example)) = Some ?st3"
    unfolding solver_def Let_def .
  then show ?thesis by simp
qed

lemma caches_accumulate:
  "pointSearchCornerInd1 (accumulate_and_swap ext st) = pointSearchCornerInd1 st"
  "pointSearchSurfInd1 (accumulate_and_swap ext st) = pointSearchSurfInd1 st"
  by (simp_all add: accumulate_and_swap_def Let_def)

lemma linear_nearest_far:
  "linear_nearest (Some (ring0_line 11)) (xyzi 100 0 0 0) = (10, 8100)"
  by (simp add: ring0_line_def upt_conv_Cons linear_nearest_def calcSquaredDiff_def xyzi_def)

lemma transformToStart_far:
  "transformToStart (pre_solve (reset far_query_example)) (xyzi 100 0 0 0) = xyzi 100 0 0 0"
  by (simp add: transformToStart_def Let_def pre_solve_def reset_def far_query_example_fields
        Twist_default_def Vector3_zero_def vsub_def vscale_def xyzi_def int_of_float_def
        rotateZXY_point_def rotateZXY_def rotX_def rotY_def rotZ_def)

text \<open>
  Claim C2 fails on the code.  The sharp query point \<open>(100, 0, 0)\<close>, re-projected by
  \<open>transformToStart\<close>, is itself; its nearest previous point is index 10, at squared
  distance 8100, which is no correspondence.  The search is handed \<open>pointSel\<close>, which is
  never assigned and stays the origin, and records index 0 as the closest neighbour, for
  the sharp and for the flat query point alike.
\<close>

theorem query_point_not_reprojected:
  "process ext_example dense_first_sweep = Some (False, process_init (reset dense_first_sweep)) \<and>
   far_query_example
     = install_sweep (process_init (reset dense_first_sweep)) 2
         [xyzi 100 0 0 0] (ring0_line 11) [xyzi 0 100 0 0] (ring0_column 101) [] \<and>
   transformToStart (pre_solve (reset far_query_example)) (xyzi 100 0 0 0) = xyzi 100 0 0 0 \<and>
   nearestKSearch ext_example (lastCornerKDTree far_query_example) (xyzi 100 0 0 0) = (10, 8100) \<and>
   pointSel_of (pre_solve (reset far_query_example)) (xyzi 100 0 0 0) = xyzi 0 0 0 0 \<and>
   map_option (\<lambda>r. (fst r, pointSearchCornerInd1 (snd r), pointSearchSurfInd1 (snd r)))
     (process ext_example far_query_example) = Some (True, [0], [0])"
proof -
  have l: "length (lastCornerCloud (pre_solve (reset far_query_example))) > 10
             \<and> length (lastSurfaceCloud (pre_solve (reset far_query_example))) > 100"
    by (simp add: lastClouds_pre_reset far_query_example_fields)
  have s: "solve_stage ext_example (pre_solve (reset far_query_example))
             = solver ext_example (pre_solve (reset far_query_example))"
    unfolding solve_stage_def by (simp only: l simp_thms if_True)
  obtain st2 where
    r: "solver ext_example (pre_solve (reset far_query_example)) = Some st2"
    and c: "pointSearchCornerInd1 st2 = [0]" "pointSearchSurfInd1 st2 = [0]"
    using solver_far by auto
  have p: "map_option (\<lambda>r. (fst r, pointSearchCornerInd1 (snd r), pointSearchSurfInd1 (snd r)))
     (process ext_example far_query_example) = Some (True, [0], [0])"
    by (simp add: process_tick[OF far_query_example_gate far_query_example_fields(8)] s r c
          caches_accumulate)
  have n: "nearestKSearch ext_example (lastCornerKDTree far_query_example) (xyzi 100 0 0 0) = (10, 8100)"
    by (simp add: ext_example_def far_query_example_fields linear_nearest_far)
  have d: "pointSel_of (pre_solve (reset far_query_example)) (xyzi 100 0 0 0) = xyzi 0 0 0 0"
    by (simp add: pointSel_of_def PointXYZI_default_def xyzi_def)
  from dense_first_sweep_tick transformToStart_far n d p show ?thesis
    by (simp add: far_query_example_def)
qed

section \<open>De-skew and pose accumulation away from rest\<close>

lemma int_of_float_examples:
  "int_of_float 2 = 2" "int_of_float (21 / 10) = 2" "int_of_float 0 = 0" "int_of_float 1 = 1"
  by (simp_all add: int_of_float_def)

lemma deskew_example:
  assumes "transform st = \<lparr>rot_x = 0, rot_y = pi / 2, rot_z = 0, pos = \<lparr>vx = 1, vy = 0, vz = 0\<rparr>\<rparr>"
    and "imuShiftFromStart st = \<lparr>vx = 0, vy = 1, vz = 0\<rparr>"
    and "imuRollStart st = 0" and "imuPitchStart st = 0" and "imuYawStart st = 0"
    and "imuRollEnd st = pi / 2" and "imuPitchEnd st = 0" and "imuYawEnd st = 0"
  shows "transformToEnd st [xyzi 1 2 3 2, xyzi 1 2 3 (21 / 10)]
           = [xyzi 1 (- 4) (- 1) 2, xyzi 1 (- 1) 3 2]"
  by (simp add: transformToEnd_def transformToEnd_point_def Let_def assms xyzi_def
        int_of_float_examples rotateZXY_point_def rotateYXZ_point_def rotateZXY_def
        rotateYXZ_def rotX_def rotY_def rotZ_def)

text \<open>
  Claim C9 fails on the code.  With \<open>ioRatio = 3\<close> and frame count 1 the call returns
  true and de-skews the object's own full-resolution cloud in place (here
  \<open>(1, 2, 3)\<close> goes to \<open>(1, - 4, - 1)\<close> and, at relative time 0.1, to
  \<open>(1, - 1, 3)\<close>), but the argument \<open>registered_cloud\<close> comes back as it went in,
  empty: the copy into it is commented out.  The caller is handed no registered cloud.
\<close>

theorem registered_cloud_not_written:
  "generateRegisteredCloud export_example []
     = (True,
        export_example\<lparr>laserCloudFullRes := [xyzi 1 (- 4) (- 1) 2, xyzi 1 (- 1) 3 2]\<rparr>,
        [])"
proof -
  have c: "ioRatio (params export_example) = 3" "frameCount export_example = 1"
          "laserCloudFullRes export_example = [xyzi 1 2 3 2, xyzi 1 2 3 (21 / 10)]"
    by (simp_all add: export_example_def LaserOdometry_init_def)
  have d: "transformToEnd export_example [xyzi 1 2 3 2, xyzi 1 2 3 (21 / 10)]
           = [xyzi 1 (- 4) (- 1) 2, xyzi 1 (- 1) 3 2]"
    by (rule deskew_example) (simp_all add: export_example_def LaserOdometry_init_def)
  show ?thesis
    unfolding generateRegisteredCloud_def c d by simp
qed

lemma transformToEnd_point_explicit:
  "transformToEnd_point st p =
     (let s = 10 * (intensity p - real_of_int (int_of_float (intensity p)));
          tr = transform st;
          start = rotateZXY (px p - s * vx (pos tr), py p - s * vy (pos tr), pz p - s * vz (pos tr))
                    (- s * rot_z tr) (- s * rot_x tr) (- s * rot_y tr);
          fin = rotateYXZ start (rot_y tr) (rot_x tr) (rot_z tr);
          moved = (fst fin + (vx (pos tr) - vx (imuShiftFromStart st)),
                   fst (snd fin) + (vy (pos tr) - vy (imuShiftFromStart st)),
                   snd (snd fin) + (vz (pos tr) - vz (imuShiftFromStart st)));
          out = rotateYXZ (rotateZXY moved (imuRollStart st) (imuPitchStart st) (imuYawStart st))
                  (- imuYawEnd st) (- imuPitchEnd st) (- imuRollEnd st)
      in \<lparr>px = fst out, py = fst (snd out), pz = snd (snd out),
          intensity = real_of_int (int_of_float (intensity p))\<rparr>)"
  by (simp add: transformToEnd_point_def Let_def rotateZXY_point_def rotateYXZ_point_def
        case_prod_beta)

lemma transformSum_accumulate:
  "transformSum (accumulate_and_swap ext st) =
     (let tr = transform st; ts = transformSum st;
          euler = getEulerAngles ext
                    (affine_mul ext
                       (getTransformation ext 0 0 0 (- rot_y tr) (- rot_x tr) (- rot_z tr))
                       (getTransformation ext 0 0 0 (rot_y ts) (rot_x ts) (rot_z ts)));
          rx = fst (snd euler); ry = fst euler; rz = snd (snd euler);
          v = rotateZXY (vx (pos tr) - vx (imuShiftFromStart st),
                         vy (pos tr) - vy (imuShiftFromStart st),
                         vz (pos tr) - vz (imuShiftFromStart st)) rz rx ry;
          plug = pluginIMURotation ext rx ry rz
                   (imuPitchStart st) (imuYawStart st) (imuRollStart st)
                   (imuPitchEnd st) (imuYawEnd st) (imuRollEnd st)
      in \<lparr>rot_x = fst plug, rot_y = fst (snd plug), rot_z = snd (snd plug),
          pos = \<lparr>vx = vx (pos ts) - fst v, vy = vy (pos ts) - fst (snd v),
                 vz = vz (pos ts) - snd (snd v)\<rparr>\<rparr>)"
  by (simp add: accumulate_and_swap_def accumulateRotation_def Let_def rotateZXY_vec_def vsub_def
        case_prod_beta)

text \<open>
  Claim C8.  On a non-initialization tick with at most 10 previous-sweep corner points or
  at most 100 previous-sweep surface points, the solver is skipped, and \<open>process\<close> still
  returns true and advances the object.  The frame count grows by one.  The incremental
  transform keeps its rotation and has \<open>imuVeloFromStart * scanPeriod\<close> subtracted from
  its translation.  The accumulated pose \<open>transformSum\<close> becomes the composition of the
  old one with that transform: the Euler angles of the product of the two rotations,
  corrected by the IMU start and end attitudes, and the old translation minus the rotated
  incremental translation net of the IMU shift.  The current less-sharp and less-flat
  clouds are de-skewed point by point with that transform and the IMU attitudes, and
  swapped into the previous-sweep slots, whose former content becomes the current clouds.
  The solver's buffers are untouched.
\<close>

theorem sparse_previous_sweep:
  assumes "hasNewData st" and "systemInited st"
    and "length (lastCornerCloud st) \<le> 10 \<or> length (lastSurfaceCloud st) \<le> 100"
  shows "\<exists>st'. process ext st = Some (True, st') \<and>
           st' = accumulate_and_swap ext (pre_solve (reset st)) \<and>
           transform st' = transform (pre_solve st) \<and>
           transform st'
             = \<lparr>rot_x = rot_x (transform st), rot_y = rot_y (transform st),
                rot_z = rot_z (transform st),
                pos = \<lparr>vx = vx (pos (transform st)) - vx (imuVeloFromStart st) * scanPeriod (params st),
                       vy = vy (pos (transform st)) - vy (imuVeloFromStart st) * scanPeriod (params st),
                       vz = vz (pos (transform st)) - vz (imuVeloFromStart st) * scanPeriod (params st)\<rparr>\<rparr> \<and>
           frameCount st' = frameCount st + 1 \<and>
           laserCloudOri st' = laserCloudOri st \<and> coeffSel st' = coeffSel st \<and>
           lastCornerCloud st' = transformToEnd (pre_solve st) (cornerPointsLessSharp st) \<and>
           lastSurfaceCloud st' = transformToEnd (pre_solve st) (surfPointsLessFlat st) \<and>
           cornerPointsLessSharp st' = lastCornerCloud st \<and>
           surfPointsLessFlat st' = lastSurfaceCloud st \<and>
           (let tr = transform st';
                deskew = (\<lambda>p.
                  let s = 10 * (intensity p - real_of_int (int_of_float (intensity p)));
                      start = rotateZXY (px p - s * vx (pos tr), py p - s * vy (pos tr),
                                         pz p - s * vz (pos tr))
                                (- s * rot_z tr) (- s * rot_x tr) (- s * rot_y tr);
                      fin = rotateYXZ start (rot_y tr) (rot_x tr) (rot_z tr);
                      moved = (fst fin + (vx (pos tr) - vx (imuShiftFromStart st)),
                               fst (snd fin) + (vy (pos tr) - vy (imuShiftFromStart st)),
                               snd (snd fin) + (vz (pos tr) - vz (imuShiftFromStart st)));
                      out = rotateYXZ
                              (rotateZXY moved (imuRollStart st) (imuPitchStart st) (imuYawStart st))
                              (- imuYawEnd st) (- imuPitchEnd st) (- imuRollEnd st)
                  in \<lparr>px = fst out, py = fst (snd out), pz = snd (snd out),
                      intensity = real_of_int (int_of_float (intensity p))\<rparr>);
                ts = transformSum st;
                euler = getEulerAngles ext
                          (affine_mul ext
                             (getTransformation ext 0 0 0 (- rot_y tr) (- rot_x tr) (- rot_z tr))
                             (getTransformation ext 0 0 0 (rot_y ts) (rot_x ts) (rot_z ts)));
                rx = fst (snd euler); ry = fst euler; rz = snd (snd euler);
                v = rotateZXY (vx (pos tr) - vx (imuShiftFromStart st),
                               vy (pos tr) - vy (imuShiftFromStart st),
                               vz (pos tr) - vz (imuShiftFromStart st)) rz rx ry;
                plug = pluginIMURotation ext rx ry rz
                         (imuPitchStart st) (imuYawStart st) (imuRollStart st)
                         (imuPitchEnd st) (imuYawEnd st) (imuRollEnd st)
            in lastCornerCloud st' = map deskew (cornerPointsLessSharp st) \<and>
               lastSurfaceCloud st' = map deskew (surfPointsLessFlat st) \<and>
               transformSum st'
                 = \<lparr>rot_x = fst plug, rot_y = fst (snd plug), rot_z = snd (snd plug),
                    pos = \<lparr>vx = vx (pos ts) - fst v, vy = vy (pos ts) - fst (snd v),
                           vz = vz (pos ts) - snd (snd v)\<rparr>\<rparr>)"
proof -
  let ?s1 = "pre_solve (reset st)"
  let ?st' = "accumulate_and_swap ext ?s1"
  have "solve_stage ext ?s1 = Some ?s1"
    using assms(3) by (intro solve_stage_sparse) (simp add: lastClouds_pre_reset)
  then have p: "process ext st = Some (True, ?st')"
    by (simp add: process_tick[OF assms(1,2)])
  have t: "transform ?st' = transform (pre_solve st)"
    by (simp add: transform_accumulate pre_solve_def reset_def)
  have t': "transform ?st'
             = \<lparr>rot_x = rot_x (transform st), rot_y = rot_y (transform st),
                rot_z = rot_z (transform st),
                pos = \<lparr>vx = vx (pos (transform st)) - vx (imuVeloFromStart st) * scanPeriod (params st),
                       vy = vy (pos (transform st)) - vy (imuVeloFromStart st) * scanPeriod (params st),
                       vz = vz (pos (transform st)) - vz (imuVeloFromStart st) * scanPeriod (params st)\<rparr>\<rparr>"
    by (simp add: transform_accumulate pre_solve_def reset_def vsub_def vscale_def)
  have f: "frameCount ?st' = frameCount st + 1"
    by (simp add: accumulate_and_swap_def Let_def pre_solve_def reset_def)
  have o: "laserCloudOri ?st' = laserCloudOri st" "coeffSel ?st' = coeffSel st"
    by (simp_all add: accumulate_and_swap_def Let_def pre_solve_def reset_def)
  have c1: "lastCornerCloud ?st' = transformToEnd ?s1 (cornerPointsLessSharp ?s1)"
    by (rule lastCornerCloud_accumulate)
  have c2: "lastSurfaceCloud ?st' = transformToEnd ?s1 (surfPointsLessFlat ?s1)"
    by (rule lastSurfaceCloud_accumulate)
  have c1': "lastCornerCloud ?st' = transformToEnd (pre_solve st) (cornerPointsLessSharp st)"
  proof -
    have "transformToEnd ?s1 (cornerPointsLessSharp st) = transformToEnd (pre_solve st) (cornerPointsLessSharp st)"
      by (rule transformToEnd_cong) (simp_all add: pre_solve_def reset_def)
    then show ?thesis unfolding c1 by (simp add: pre_solve_def reset_def)
  qed
  have c2': "lastSurfaceCloud ?st' = transformToEnd (pre_solve st) (surfPointsLessFlat st)"
  proof -
    have "transformToEnd ?s1 (surfPointsLessFlat st) = transformToEnd (pre_solve st) (surfPointsLessFlat st)"
      by (rule transformToEnd_cong) (simp_all add: pre_solve_def reset_def)
    then show ?thesis unfolding c2 by (simp add: pre_solve_def reset_def)
  qed
  have s: "cornerPointsLessSharp ?st' = lastCornerCloud st"
          "surfPointsLessFlat ?st' = lastSurfaceCloud st"
    by (simp_all add: accumulate_and_swap_def Let_def pre_solve_def reset_def)
  have i: "imuShiftFromStart (pre_solve st) = imuShiftFromStart st"
          "imuRollStart (pre_solve st) = imuRollStart st" "imuPitchStart (pre_solve st) = imuPitchStart st"
          "imuYawStart (pre_solve st) = imuYawStart st" "imuRollEnd (pre_solve st) = imuRollEnd st"
          "imuPitchEnd (pre_solve st) = imuPitchEnd st" "imuYawEnd (pre_solve st) = imuYawEnd st"
    by (simp_all add: pre_solve_def)
  have i1: "imuShiftFromStart ?s1 = imuShiftFromStart st"
          "imuRollStart ?s1 = imuRollStart st" "imuPitchStart ?s1 = imuPitchStart st"
          "imuYawStart ?s1 = imuYawStart st" "imuRollEnd ?s1 = imuRollEnd st"
          "imuPitchEnd ?s1 = imuPitchEnd st" "imuYawEnd ?s1 = imuYawEnd st"
          "transformSum ?s1 = transformSum st" "transform ?s1 = transform (pre_solve st)"
    by (simp_all add: pre_solve_def reset_def)
  have e: "(let tr = transform ?st';
                deskew = (\<lambda>p.
                  let s = 10 * (intensity p - real_of_int (int_of_float (intensity p)));
                      start = rotateZXY (px p - s * vx (pos tr), py p - s * vy (pos tr),
                                         pz p - s * vz (pos tr))
                                (- s * rot_z tr) (- s * rot_x tr) (- s * rot_y tr);
                      fin = rotateYXZ start (rot_y tr) (rot_x tr) (rot_z tr);
                      moved = (fst fin + (vx (pos tr) - vx (imuShiftFromStart st)),
                               fst (snd fin) + (vy (pos tr) - vy (imuShiftFromStart st)),
                               snd (snd fin) + (vz (pos tr) - vz (imuShiftFromStart st)));
                      out = rotateYXZ
                              (rotateZXY moved (imuRollStart st) (imuPitchStart st) (imuYawStart st))
                              (- imuYawEnd st) (- imuPitchEnd st) (- imuRollEnd st)
                  in \<lparr>px = fst out, py = fst (snd out), pz = snd (snd out),
                      intensity = real_of_int (int_of_float (intensity p))\<rparr>);
                ts = transformSum st;
                euler = getEulerAngles ext
                          (affine_mul ext
                             (getTransformation ext 0 0 0 (- rot_y tr) (- rot_x tr) (- rot_z tr))
                             (getTransformation ext 0 0 0 (rot_y ts) (rot_x ts) (rot_z ts)));
                rx = fst (snd euler); ry = fst euler; rz = snd (snd euler);
                v = rotateZXY (vx (pos tr) - vx (imuShiftFromStart st),
                               vy (pos tr) - vy (imuShiftFromStart st),
                               vz (pos tr) - vz (imuShiftFromStart st)) rz rx ry;
                plug = pluginIMURotation ext rx ry rz
                         (imuPitchStart st) (imuYawStart st) (imuRollStart st)
                         (imuPitchEnd st) (imuYawEnd st) (imuRollEnd st)
            in lastCornerCloud ?st' = map deskew (cornerPointsLessSharp st) \<and>
               lastSurfaceCloud ?st' = map deskew (surfPointsLessFlat st) \<and>
               transformSum ?st'
                 = \<lparr>rot_x = fst plug, rot_y = fst (snd plug), rot_z = snd (snd plug),
                    pos = \<lparr>vx = vx (pos ts) - fst v, vy = vy (pos ts) - fst (snd v),
                           vz = vz (pos ts) - snd (snd v)\<rparr>\<rparr>)"
    unfolding c1' c2' t transformSum_accumulate[of ext ?s1] i1
    by (simp add: transformToEnd_def transformToEnd_point_explicit Let_def i)
  from p t t' f o c1' c2' s e show ?thesis by blast
qed

lemma sparse_tick_example_fields:
  "transform sparse_tick_example
     = \<lparr>rot_x = 0, rot_y = pi / 2, rot_z = 0, pos = \<lparr>vx = 2, vy = 0, vz = 0\<rparr>\<rparr>"
  "transformSum sparse_tick_example
     = \<lparr>rot_x = 0, rot_y = 0, rot_z = 0, pos = \<lparr>vx = 5, vy = 5, vz = 5\<rparr>\<rparr>"
  "imuShiftFromStart sparse_tick_example = \<lparr>vx = 0, vy = 1, vz = 0\<rparr>"
  "imuVeloFromStart sparse_tick_example = \<lparr>vx = 10, vy = 0, vz = 0\<rparr>"
  "imuRollStart sparse_tick_example = 0" "imuPitchStart sparse_tick_example = 0"
  "imuYawStart sparse_tick_example = 0" "imuRollEnd sparse_tick_example = pi / 2"
  "imuPitchEnd sparse_tick_example = 0" "imuYawEnd sparse_tick_example = 0"
  "scanPeriod (params sparse_tick_example) = 1 / 10"
  "frameCount sparse_tick_example = 0"
  "cornerPointsLessSharp sparse_tick_example = [xyzi 1 2 3 2, xyzi 1 2 3 (21 / 10)]"
  "surfPointsLessFlat sparse_tick_example = [xyzi 0 0 1 0]"
  "lastCornerCloud sparse_tick_example = [xyzi 1 0 0 0, xyzi 2 0 0 1]"
  "lastSurfaceCloud sparse_tick_example = [xyzi 0 1 0 0, xyzi 0 2 0 1]"
  by (simp_all add: sparse_tick_example_def second_sweep_example_def install_sweep_def
        process_init_def reset_def cold_start_example_def LaserOdometry_init_def
        example_params_def)

lemma sparse_tick_example_gate: "hasNewData sparse_tick_example"
  using second_sweep_example_gate by (simp add: sparse_tick_example_def hasNewData_def)

lemma sparse_tick_example_inited: "systemInited sparse_tick_example"
  using second_sweep_example_inited by (simp add: sparse_tick_example_def)

lemma sparse_tick_example_sparse:
  "length (lastCornerCloud sparse_tick_example) \<le> 10
     \<or> length (lastSurfaceCloud sparse_tick_example) \<le> 100"
  by (simp add: sparse_tick_example_fields)

lemma euler_example:
  "getEulerAngles ext_example
     (affine_mul ext_example
        (getTransformation ext_example 0 0 0 (- (pi / 2)) 0 0)
        (getTransformation ext_example 0 0 0 0 0 0))
     = (- (pi / 2), 0, 0)"
  by (simp add: ext_example_def pcl_getTransformation_def pcl_getEulerAngles_def mat_mul_def
        atan2_std_def Let_def)

lemma plugin_example:
  "pluginIMURotation ext_example 0 (- (pi / 2)) 0 0 0 0 0 0 (pi / 2) = (0, - (pi / 2), pi / 2)"
  by (simp add: pluginIMURotation_def ext_example_def atan2_std_def Let_def)

theorem sparse_previous_sweep_witness:
  "hasNewData sparse_tick_example \<and> systemInited sparse_tick_example \<and>
   (length (lastCornerCloud sparse_tick_example) \<le> 10
      \<or> length (lastSurfaceCloud sparse_tick_example) \<le> 100) \<and>
   transform sparse_tick_example
     = \<lparr>rot_x = 0, rot_y = pi / 2, rot_z = 0, pos = \<lparr>vx = 2, vy = 0, vz = 0\<rparr>\<rparr> \<and>
   transformSum sparse_tick_example
     = \<lparr>rot_x = 0, rot_y = 0, rot_z = 0, pos = \<lparr>vx = 5, vy = 5, vz = 5\<rparr>\<rparr> \<and>
   cornerPointsLessSharp sparse_tick_example = [xyzi 1 2 3 2, xyzi 1 2 3 (21 / 10)] \<and>
   surfPointsLessFlat sparse_tick_example = [xyzi 0 0 1 0] \<and>
   (\<exists>st'. process ext_example sparse_tick_example = Some (True, st') \<and>
      frameCount st' = 1 \<and>
      transform st' = \<lparr>rot_x = 0, rot_y = pi / 2, rot_z = 0, pos = \<lparr>vx = 1, vy = 0, vz = 0\<rparr>\<rparr> \<and>
      transformSum st'
        = \<lparr>rot_x = 0, rot_y = - (pi / 2), rot_z = pi / 2, pos = \<lparr>vx = 5, vy = 6, vz = 4\<rparr>\<rparr> \<and>
      lastCornerCloud st' = [xyzi 1 (- 4) (- 1) 2, xyzi 1 (- 1) 3 2] \<and>
      lastSurfaceCloud st' = [xyzi (- 1) (- 2) 0 0] \<and>
      cornerPointsLessSharp st' = [xyzi 1 0 0 0, xyzi 2 0 0 1] \<and>
      surfPointsLessFlat st' = [xyzi 0 1 0 0, xyzi 0 2 0 1])"
proof -
  note F = sparse_tick_example_fields
  from sparse_previous_sweep[OF sparse_tick_example_gate sparse_tick_example_inited
         sparse_tick_example_sparse, of ext_example]
  obtain st' where
    p: "process ext_example sparse_tick_example = Some (True, st')" and
    t: "transform st'
             = \<lparr>rot_x = rot_x (transform sparse_tick_example),
                rot_y = rot_y (transform sparse_tick_example),
                rot_z = rot_z (transform sparse_tick_example),
                pos = \<lparr>vx = vx (pos (transform sparse_tick_example))
                            - vx (imuVeloFromStart sparse_tick_example) * scanPeriod (params sparse_tick_example),
                       vy = vy (pos (transform sparse_tick_example))
                            - vy (imuVeloFromStart sparse_tick_example) * scanPeriod (params sparse_tick_example),
                       vz = vz (pos (transform sparse_tick_example))
                            - vz (imuVeloFromStart sparse_tick_example) * scanPeriod (params sparse_tick_example)\<rparr>\<rparr>" and
    f: "frameCount st' = frameCount sparse_tick_example + 1" and
    s: "cornerPointsLessSharp st' = lastCornerCloud sparse_tick_example"
       "surfPointsLessFlat st' = lastSurfaceCloud sparse_tick_example" and
    e: "(let tr = transform st';
                deskew = (\<lambda>p.
                  let s = 10 * (intensity p - real_of_int (int_of_float (intensity p)));
                      start = rotateZXY (px p - s * vx (pos tr), py p - s * vy (pos tr),
                                         pz p - s * vz (pos tr))
                                (- s * rot_z tr) (- s * rot_x tr) (- s * rot_y tr);
                      fin = rotateYXZ start (rot_y tr) (rot_x tr) (rot_z tr);
                      moved = (fst fin + (vx (pos tr) - vx (imuShiftFromStart sparse_tick_example)),
                               fst (snd fin) + (vy (pos tr) - vy (imuShiftFromStart sparse_tick_example)),
                               snd (snd fin) + (vz (pos tr) - vz (imuShiftFromStart sparse_tick_example)));
                      out = rotateYXZ
                              (rotateZXY moved (imuRollStart sparse_tick_example)
                                 (imuPitchStart sparse_tick_example) (imuYawStart sparse_tick_example))
                              (- imuYawEnd sparse_tick_example) (- imuPitchEnd sparse_tick_example)
                              (- imuRollEnd sparse_tick_example)
                  in \<lparr>px = fst out, py = fst (snd out), pz = snd (snd out),
                      intensity = real_of_int (int_of_float (intensity p))\<rparr>);
                ts = transformSum sparse_tick_example;
                euler = getEulerAngles ext_example
                          (affine_mul ext_example
                             (getTransformation ext_example 0 0 0 (- rot_y tr) (- rot_x tr) (- rot_z tr))
                             (getTransformation ext_example 0 0 0 (rot_y ts) (rot_x ts) (rot_z ts)));
                rx = fst (snd euler); ry = fst euler; rz = snd (snd euler);
                v = rotateZXY (vx (pos tr) - vx (imuShiftFromStart sparse_tick_example),
                               vy (pos tr) - vy (imuShiftFromStart sparse_tick_example),
                               vz (pos tr) - vz (imuShiftFromStart sparse_tick_example)) rz rx ry;
                plug = pluginIMURotation ext_example rx ry rz
                         (imuPitchStart sparse_tick_example) (imuYawStart sparse_tick_example)
                         (imuRollStart sparse_tick_example)
                         (imuPitchEnd sparse_tick_example) (imuYawEnd sparse_tick_example)
                         (imuRollEnd sparse_tick_example)
            in lastCornerCloud st' = map deskew (cornerPointsLessSharp sparse_tick_example) \<and>
               lastSurfaceCloud st' = map deskew (surfPointsLessFlat sparse_tick_example) \<and>
               transformSum st'
                 = \<lparr>rot_x = fst plug, rot_y = fst (snd plug), rot_z = snd (snd plug),
                    pos = \<lparr>vx = vx (pos ts) - fst v, vy = vy (pos ts) - fst (snd v),
                           vz = vz (pos ts) - snd (snd v)\<rparr>\<rparr>)"
    by blast
  have t': "transform st' = \<lparr>rot_x = 0, rot_y = pi / 2, rot_z = 0, pos = \<lparr>vx = 1, vy = 0, vz = 0\<rparr>\<rparr>"
    unfolding t F by simp
  have f': "frameCount st' = 1" unfolding f F by simp
  have s': "cornerPointsLessSharp st' = [xyzi 1 0 0 0, xyzi 2 0 0 1]"
           "surfPointsLessFlat st' = [xyzi 0 1 0 0, xyzi 0 2 0 1]"
    unfolding s F by simp_all
  from e have e': "lastCornerCloud st' = [xyzi 1 (- 4) (- 1) 2, xyzi 1 (- 1) 3 2] \<and>
      lastSurfaceCloud st' = [xyzi (- 1) (- 2) 0 0] \<and>
      transformSum st'
        = \<lparr>rot_x = 0, rot_y = - (pi / 2), rot_z = pi / 2, pos = \<lparr>vx = 5, vy = 6, vz = 4\<rparr>\<rparr>"
    unfolding t' F
    by (simp add: Let_def euler_example plugin_example xyzi_def int_of_float_examples
          rotateZXY_def rotateYXZ_def rotX_def rotY_def rotZ_def)
  from p t' f' s' e' have
    "\<exists>st'. process ext_example sparse_tick_example = Some (True, st') \<and>
      frameCount st' = 1 \<and>
      transform st' = \<lparr>rot_x = 0, rot_y = pi / 2, rot_z = 0, pos = \<lparr>vx = 1, vy = 0, vz = 0\<rparr>\<rparr> \<and>
      transformSum st'
        = \<lparr>rot_x = 0, rot_y = - (pi / 2), rot_z = pi / 2, pos = \<lparr>vx = 5, vy = 6, vz = 4\<rparr>\<rparr> \<and>
      lastCornerCloud st' = [xyzi 1 (- 4) (- 1) 2, xyzi 1 (- 1) 3 2] \<and>
      lastSurfaceCloud st' = [xyzi (- 1) (- 2) 0 0] \<and>
      cornerPointsLessSharp st' = [xyzi 1 0 0 0, xyzi 2 0 0 1] \<and>
      surfPointsLessFlat st' = [xyzi 0 1 0 0, xyzi 0 2 0 1]"
    by blast
  with sparse_tick_example_gate sparse_tick_example_inited sparse_tick_example_sparse
    F(1,2,13,14)
  show ?thesis by blast
qed

section \<open>The neighbour indices after a dense tick\<close>

lemma dense_second_sweep_fields:
  "lastCornerKDTree dense_second_sweep = Some (ring0_line 11)"
  "lastCornerCloud dense_second_sweep = ring0_line 11"
  "lastSurfaceKDTree dense_second_sweep = Some (ring0_column 101)"
  "lastSurfaceCloud dense_second_sweep = ring0_column 101"
  "cornerPointsSharp dense_second_sweep = [xyzi 100 0 0 0]"
  "surfPointsFlat dense_second_sweep = [xyzi 0 100 0 0]"
  "maxIterations (params dense_second_sweep) = 1"
  "systemInited dense_second_sweep"
  "pointSearchCornerInd1 dense_second_sweep = []"
  "pointSearchCornerInd2 dense_second_sweep = []"
  "pointSearchSurfInd1 dense_second_sweep = []"
  "pointSearchSurfInd2 dense_second_sweep = []"
  "pointSearchSurfInd3 dense_second_sweep = []"
  "transform dense_second_sweep = Twist_default"
  "cornerPointsLessSharp dense_second_sweep = shifted_line 11"
  "surfPointsLessFlat dense_second_sweep = shifted_column 101"
  "imuVeloFromStart dense_second_sweep = Vector3_zero"
  "imuShiftFromStart dense_second_sweep = Vector3_zero"
  "imuRollStart dense_second_sweep = 0" "imuPitchStart dense_second_sweep = 0"
  "imuYawStart dense_second_sweep = 0" "imuRollEnd dense_second_sweep = 0"
  "imuPitchEnd dense_second_sweep = 0" "imuYawEnd dense_second_sweep = 0"
  by (simp_all add: dense_second_sweep_def install_sweep_def process_init_def reset_def
        dense_first_sweep_def LaserOdometry_init_def)

lemma dense_second_sweep_gate: "hasNewData dense_second_sweep"
  by (simp add: dense_second_sweep_def install_sweep_def hasNewData_def)

lemma solver_dense:
  "\<exists>st2. solver ext_example (pre_solve (reset dense_second_sweep)) = Some st2 \<and>
         (\<forall>cloud. transformToEnd st2 cloud
                    = transformToEnd (pre_solve (reset dense_second_sweep)) cloud)"
proof -
  let ?st1 = "(pre_solve (reset dense_second_sweep))\<lparr>cornerPointsSharp :=
                removeNaNFromPointCloud (cornerPointsSharp (pre_solve (reset dense_second_sweep)))\<rparr>"
  let ?st2 = "?st1\<lparr>pointSearchCornerInd1 := resize (pointSearchCornerInd1 ?st1) (length (cornerPointsSharp ?st1)),
                    pointSearchCornerInd2 := resize (pointSearchCornerInd2 ?st1) (length (cornerPointsSharp ?st1)),
                    pointSearchSurfInd1 := resize (pointSearchSurfInd1 ?st1) (length (surfPointsFlat ?st1)),
                    pointSearchSurfInd2 := resize (pointSearchSurfInd2 ?st1) (length (surfPointsFlat ?st1)),
                    pointSearchSurfInd3 := resize (pointSearchSurfInd3 ?st1) (length (surfPointsFlat ?st1))\<rparr>"
  let ?st3 = "?st2\<lparr>laserCloudOri := [], coeffSel := [],
                    pointSearchCornerInd1 := [0], pointSearchCornerInd2 := [- 1],
                    pointSearchSurfInd1 := [0], pointSearchSurfInd2 := [- 1],
                    pointSearchSurfInd3 := [- 1]\<rparr>"
  have i: "solver_iteration ext_example 0 ?st2 False [] = Some (?st3, False, [], False)"
    by (rule solver_iteration_far)
       (simp_all add: pre_solve_def reset_def removeNaN_id resize_def dense_second_sweep_fields)
  have m: "maxIterations (params ?st2) = 1"
    by (simp add: pre_solve_def reset_def dense_second_sweep_fields)
  have e: "solver_loop ext_example 1 1 (?st3, False, []) = Some ?st3"
    by (subst solver_loop.simps) (simp only: less_irrefl if_False)
  have "solver_loop ext_example (maxIterations (params ?st2)) 0 (?st2, False, []) = Some ?st3"
    unfolding m
    by (subst solver_loop.simps)
       (simp only: zero_less_one if_True i option.case prod.case if_False One_nat_def[symmetric] e)
  then have "solver ext_example (pre_solve (reset dense_second_sweep)) = Some ?st3"
    unfolding solver_def Let_def .
  moreover have "transformToEnd ?st3 cloud
                   = transformToEnd (pre_solve (reset dense_second_sweep)) cloud" for cloud
    by (rule transformToEnd_cong) simp_all
  ultimately show ?thesis by blast
qed

lemma deskew_at_rest:
  "transformToEnd_point (pre_solve (reset dense_second_sweep)) (xyzi a b c 0) = xyzi a b c 0"
  by (simp add: transformToEnd_point_def Let_def pre_solve_def reset_def dense_second_sweep_fields
        xyzi_def int_of_float_examples vsub_def vscale_def
        Twist_default_def Vector3_zero_def rotateZXY_point_def rotateYXZ_point_def
        rotateZXY_def rotateYXZ_def rotX_def rotY_def rotZ_def)

lemma deskew_dense:
  "transformToEnd (pre_solve (reset dense_second_sweep)) (shifted_line n) = shifted_line n"
  "transformToEnd (pre_solve (reset dense_second_sweep)) (shifted_column n) = shifted_column n"
  by (simp_all add: transformToEnd_def shifted_line_def shifted_column_def deskew_at_rest)

lemma length_shifted [simp]: "length (shifted_line n) = n" "length (shifted_column n) = n"
  by (simp_all add: shifted_line_def shifted_column_def)

lemma shifted_differs:
  "shifted_line 11 \<noteq> ring0_line 11" "shifted_column 101 \<noteq> ring0_column 101"
proof -
  show "shifted_line 11 \<noteq> ring0_line 11"
  proof
    assume "shifted_line 11 = ring0_line 11"
    then have "shifted_line 11 ! 0 = ring0_line 11 ! 0" by simp
    then show False by (simp add: shifted_line_def ring0_line_def xyzi_def)
  qed
  show "shifted_column 101 \<noteq> ring0_column 101"
  proof
    assume "shifted_column 101 = ring0_column 101"
    then have "shifted_column 101 ! 0 = ring0_column 101 ! 0" by simp
    then show False by (simp add: shifted_column_def ring0_column_def xyzi_def)
  qed
qed

text \<open>
  Claim C4 fails on the code.  A tick that returns true leaves both neighbour indices as
  they were, while the previous-sweep slots receive the de-skewed clouds of the current
  sweep: the rebuild (lines 789 and 790) is commented out, also when the new
  previous-sweep clouds have more than 10 and more than 100 points and the guard of
  line 788 holds.
\<close>

theorem neighbor_index_not_rebuilt:
  assumes "process ext st = Some (True, st')"
  shows "lastCornerKDTree st' = lastCornerKDTree st \<and>
         lastSurfaceKDTree st' = lastSurfaceKDTree st \<and>
         (\<exists>st2. solve_stage ext (pre_solve (reset st)) = Some st2 \<and>
                lastCornerCloud st' = transformToEnd st2 (cornerPointsLessSharp st) \<and>
                lastSurfaceCloud st' = transformToEnd st2 (surfPointsLessFlat st))"
  using assms
proof (cases rule: process_cases)
  case idle
  then show ?thesis by simp
next
  case cold
  then show ?thesis by simp
next
  case (solve st2)
  have f: "solver_frame (pre_solve (reset st)) st2" using solve(4) by (rule solve_stage_frame)
  have k: "lastCornerKDTree st2 = lastCornerKDTree st" "lastSurfaceKDTree st2 = lastSurfaceKDTree st"
          "cornerPointsLessSharp st2 = cornerPointsLessSharp st"
          "surfPointsLessFlat st2 = surfPointsLessFlat st"
    using kdtree_frame[OF f] by (simp_all add: pre_solve_def reset_def)
  show ?thesis
    using solve(4) k
    by (auto simp: solve(5) kdtree_accumulate lastCornerCloud_accumulate lastSurfaceCloud_accumulate)
qed

theorem neighbor_index_not_rebuilt_witness:
  "\<exists>st'. process ext_example dense_second_sweep = Some (True, st') \<and>
     lastCornerKDTree dense_second_sweep = Some (ring0_line 11) \<and>
     lastSurfaceKDTree dense_second_sweep = Some (ring0_column 101) \<and>
     cornerPointsLessSharp dense_second_sweep = shifted_line 11 \<and>
     surfPointsLessFlat dense_second_sweep = shifted_column 101 \<and>
     lastCornerCloud st' = shifted_line 11 \<and>
     lastSurfaceCloud st' = shifted_column 101 \<and>
     10 < length (lastCornerCloud st') \<and> 100 < length (lastSurfaceCloud st') \<and>
     lastCornerKDTree st' = Some (ring0_line 11) \<and>
     lastSurfaceKDTree st' = Some (ring0_column 101) \<and>
     shifted_line 11 \<noteq> ring0_line 11 \<and> shifted_column 101 \<noteq> ring0_column 101"
proof -
  let ?p = "pre_solve (reset dense_second_sweep)"
  from solver_dense obtain s2 where
    s: "solver ext_example ?p = Some s2"
       "\<And>cloud. transformToEnd s2 cloud = transformToEnd ?p cloud"
    by blast
  have ss: "solve_stage ext_example ?p = Some s2"
    by (simp add: solve_stage_def lastClouds_pre_reset dense_second_sweep_fields s(1))
  have tick: "process ext_example dense_second_sweep = Some (True, accumulate_and_swap ext_example s2)"
    by (simp add: process_tick[OF dense_second_sweep_gate dense_second_sweep_fields(8)] ss)
  note n = neighbor_index_not_rebuilt[OF tick]
  from n have k1: "lastCornerKDTree (accumulate_and_swap ext_example s2) = Some (ring0_line 11)"
    by (simp add: dense_second_sweep_fields)
  from n have k2: "lastSurfaceKDTree (accumulate_and_swap ext_example s2) = Some (ring0_column 101)"
    by (simp add: dense_second_sweep_fields)
  from n have c1: "lastCornerCloud (accumulate_and_swap ext_example s2) = shifted_line 11"
    unfolding ss by (simp add: dense_second_sweep_fields s(2) deskew_dense)
  from n have c2: "lastSurfaceCloud (accumulate_and_swap ext_example s2) = shifted_column 101"
    unfolding ss by (simp add: dense_second_sweep_fields s(2) deskew_dense)
  have l: "10 < length (lastCornerCloud (accumulate_and_swap ext_example s2))"
          "100 < length (lastSurfaceCloud (accumulate_and_swap ext_example s2))"
    unfolding c1 c2 by simp_all
  from tick k1 k2 c1 c2 l dense_second_sweep_fields(1,3,15,16) shifted_differs
  show ?thesis by blast
qed

end
